theory Spec2Isabelle
  imports Complex_Main
begin

section \<open>JavaScript values\<close>

text \<open>
  The values that flow through \<^verbatim>\<open>iss.js\<close>: what \<^verbatim>\<open>JSON.parse\<close> builds,
  \<^verbatim>\<open>undefined\<close> (the value of a property an object does not have), and error
  objects (those \<^verbatim>\<open>request\<close> hands over, those the code builds with
  \<^verbatim>\<open>Error(msg)\<close>, and those the runtime throws). An error object is its name and its
  message. A number is a rational: every value \<^verbatim>\<open>JSON.parse\<close> yields is a finite
  double, the program does no arithmetic, and \<^verbatim>\<open>-0\<close> behaves as \<^verbatim>\<open>0\<close> in the
  two places a number is looked at (truthiness, conversion to a string).
\<close>

datatype jsval =
    Undefined
  | Null
  | Bool bool
  | Num rat
  | Str string
  | Arr "jsval list"
  | Obj "(string \<times> jsval) list"
  | Err string string

text \<open>A completion of a piece of code: it returns, or it throws a value.\<close>

datatype completion = Normal | Throw jsval

text \<open>\<^verbatim>\<open>if (v)\<close>, \<^verbatim>\<open>!v\<close>: the falsy values are \<^verbatim>\<open>undefined\<close>, \<^verbatim>\<open>null\<close>,
  \<^verbatim>\<open>false\<close>, \<^verbatim>\<open>0\<close> and the empty string.\<close>

fun truthy :: "jsval \<Rightarrow> bool" where
  "truthy Undefined = False"
| "truthy Null = False"
| "truthy (Bool b) = b"
| "truthy (Num x) = (x \<noteq> 0)"
| "truthy (Str s) = (s \<noteq> [])"
| "truthy (Arr xs) = True"
| "truthy (Obj kvs) = True"
| "truthy (Err n m) = True"

text \<open>
  \<^verbatim>\<open>v.p\<close> for the property names this program reads (\<^verbatim>\<open>ip\<close>, \<^verbatim>\<open>success\<close>,
  \<^verbatim>\<open>message\<close>, \<^verbatim>\<open>latitude\<close>, \<^verbatim>\<open>longitude\<close>, \<^verbatim>\<open>response\<close>, \<^verbatim>\<open>risetime\<close>,
  \<^verbatim>\<open>duration\<close>), none of which is a built-in property of an array, a string, a number
  or a boolean. Reading a property of \<^verbatim>\<open>null\<close> or \<^verbatim>\<open>undefined\<close> throws a TypeError
  (\<open>Inl\<close>, with the message V8 gives it); an object without the property gives
  \<^verbatim>\<open>undefined\<close>.
\<close>

definition cannot_read :: "string \<Rightarrow> string \<Rightarrow> jsval" where
  "cannot_read what p =
     Err ''TypeError'' (''Cannot read properties of '' @ what @ '' (reading '' @ [CHR 0x27] @ p @ [CHR 0x27] @ '')'')"

fun get_prop :: "jsval \<Rightarrow> string \<Rightarrow> jsval + jsval" where
  "get_prop Undefined p = Inl (cannot_read ''undefined'' p)"
| "get_prop Null p = Inl (cannot_read ''null'' p)"
| "get_prop (Obj kvs) p = Inr (case map_of kvs p of None \<Rightarrow> Undefined | Some v \<Rightarrow> v)"
| "get_prop (Err n m) p =
     Inr (if p = ''message'' then Str m else if p = ''name'' then Str n else Undefined)"
| "get_prop (Bool b) p = Inr Undefined"
| "get_prop (Num x) p = Inr Undefined"
| "get_prop (Str s) p = Inr Undefined"
| "get_prop (Arr xs) p = Inr Undefined"

text \<open>\<^verbatim>\<open>xs.join(",")\<close> on strings.\<close>

fun join :: "string list \<Rightarrow> string" where
  "join [] = []"
| "join [s] = s"
| "join (s # t # ss) = s @ '','' @ join (t # ss)"

text \<open>
  A template literal \<^verbatim>\<open>`${v}`\<close> converts \<^verbatim>\<open>v\<close> to a string, and
  \<^verbatim>\<open>setUTCSeconds(v)\<close> converts \<^verbatim>\<open>v\<close> to a number. For an object both go through its
  \<^verbatim>\<open>toString\<close> and \<^verbatim>\<open>valueOf\<close>: a plain object inherits them, and gives
  \<^verbatim>\<open>[object Object]\<close>, unless it has a key \<^verbatim>\<open>toString\<close> of its own. What
  \<^verbatim>\<open>JSON.parse\<close> puts under that key is never a function, the inherited \<^verbatim>\<open>valueOf\<close>
  returns the object itself, and the conversion throws a TypeError. An array is
  converted by joining the conversions of its elements (\<^verbatim>\<open>null\<close> and \<^verbatim>\<open>undefined\<close>
  elements give the empty string), so it throws when the conversion of an element does.
\<close>

definition cannot_convert :: jsval where
  "cannot_convert = Err ''TypeError'' ''Cannot convert object to primitive value''"

fun unconvertible :: "jsval \<Rightarrow> bool" where
  "unconvertible (Obj kvs) = (map_of kvs ''toString'' \<noteq> None)"
| "unconvertible (Arr xs) = list_ex unconvertible xs"
| "unconvertible Undefined = False"
| "unconvertible Null = False"
| "unconvertible (Bool b) = False"
| "unconvertible (Num x) = False"
| "unconvertible (Str s) = False"
| "unconvertible (Err n m) = False"

text \<open>
  The string a value is converted to, when it can be converted. The digits of a number
  are the runtime's business (\<open>ns\<close>, see \<open>Number_toString\<close> below).
\<close>

fun text_of :: "(rat \<Rightarrow> string) \<Rightarrow> jsval \<Rightarrow> string" where
  "text_of ns Undefined = ''undefined''"
| "text_of ns Null = ''null''"
| "text_of ns (Bool b) = (if b then ''true'' else ''false'')"
| "text_of ns (Num x) = ns x"
| "text_of ns (Str s) = s"
| "text_of ns (Arr xs) =
     join (map (\<lambda>x. if x = Undefined \<or> x = Null then [] else text_of ns x) xs)"
| "text_of ns (Obj kvs) = ''[object Object]''"
| "text_of ns (Err n m) = (if m = [] then n else if n = [] then m else n @ '': '' @ m)"

text \<open>The conversion of a template literal: the TypeError (\<open>Inl\<close>) or the string.\<close>

definition to_string :: "(rat \<Rightarrow> string) \<Rightarrow> jsval \<Rightarrow> jsval + string" where
  "to_string ns v = (if unconvertible v then Inl cannot_convert else Inr (text_of ns v))"

text \<open>The decimal digits of a status code (\<^verbatim>\<open>`${response.statusCode}`\<close>).\<close>

definition digit_char :: "nat \<Rightarrow> char" where
  "digit_char d = ''0123456789'' ! d"

fun string_of_nat :: "nat \<Rightarrow> string" where
  "string_of_nat n =
     (if n < 10 then [digit_char n] else string_of_nat (n div 10) @ [digit_char (n mod 10)])"

declare string_of_nat.simps [simp del]

section \<open>The world outside the program\<close>

text \<open>
  What \<^verbatim>\<open>request.get\<close> hands to its callback \<^verbatim>\<open>(error, response, body)\<close>: either an
  error object (a transport failure; \<^verbatim>\<open>response\<close> and \<^verbatim>\<open>body\<close> are then undefined), or
  \<^verbatim>\<open>null\<close>, a response with its \<^verbatim>\<open>statusCode\<close>, and the body as a string.
\<close>

datatype reply =
    Failed string string
  | Replied nat string

text \<open>
  The runtime a run happens in: the reply of the network to a GET of a URL, the built-in
  \<^verbatim>\<open>JSON.parse\<close> (\<open>Inl m\<close>: it throws a SyntaxError with message \<open>m\<close>), and the
  built-in conversion of a number to a string.
\<close>

record runtime =
  network :: "string \<Rightarrow> reply"
  JSON_parse :: "string \<Rightarrow> string + jsval"
  Number_toString :: "rat \<Rightarrow> string"

text \<open>What a run does that can be seen from outside: the requests it sends and the
  calls of the completion callback, in order.\<close>

datatype event =
    Request string
  | Callback jsval jsval

record world =
  trace :: "event list"
  uncaught :: "jsval option"

type_synonym callback = "jsval \<Rightarrow> jsval \<Rightarrow> world \<Rightarrow> completion \<times> world"

definition emit :: "event \<Rightarrow> world \<Rightarrow> world" where
  "emit ev w = w\<lparr>trace := trace w @ [ev]\<rparr>"

text \<open>
  \<^verbatim>\<open>request.get(url, handler)\<close> sends the request and returns; the handler runs in a
  later turn of the event loop, with the reply. An exception the handler throws does not
  reach the code that called \<^verbatim>\<open>request.get\<close>: it is uncaught. In this program nothing
  runs between a call of \<^verbatim>\<open>request.get\<close> and the end of the turn (every such call is
  the last thing its function does, and so is every call that leads to it), so the events
  come out in the same order when the handler is run at once, behind that barrier.
\<close>

definition request_get ::
  "runtime \<Rightarrow> string \<Rightarrow> (reply \<Rightarrow> world \<Rightarrow> completion \<times> world) \<Rightarrow> world \<Rightarrow> completion \<times> world" where
  "request_get rt url handler w =
     (case handler (network rt url) (emit (Request url) w) of
        (Normal, w') \<Rightarrow> (Normal, w')
      | (Throw v, w') \<Rightarrow> (Normal, w'\<lparr>uncaught := Some v\<rparr>))"

text \<open>\<^verbatim>\<open>try { body } catch (error) { handler(error) }\<close>.\<close>

definition try_catch ::
  "(world \<Rightarrow> completion \<times> world) \<Rightarrow> (jsval \<Rightarrow> world \<Rightarrow> completion \<times> world) \<Rightarrow>
   world \<Rightarrow> completion \<times> world" where
  "try_catch body handler w =
     (case body w of
        (Normal, w') \<Rightarrow> (Normal, w')
      | (Throw v, w') \<Rightarrow> handler v w')"

section \<open>The three lookups and the orchestrator (iss.js)\<close>

text \<open>
  Each lookup is one call of \<^verbatim>\<open>request.get\<close> with a handler, written here as in the
  source: the transport error first, then (not in the geolocation lookup) the status
  code, then the \<^verbatim>\<open>try\<close> block that parses the body, reads the field and calls the
  callback, with the \<^verbatim>\<open>catch\<close> clause that calls the callback with what was thrown.
  \<^verbatim>\<open>request\<close> calls the handler once for each request.

  The message of the status error (iss.js, lines 22 and 83; the overpass lookup says
  \<^verbatim>\<open>when fetching IP\<close> too):
\<close>

definition status_message :: "nat \<Rightarrow> string \<Rightarrow> string" where
  "status_message statusCode body =
     ''Status Code '' @ string_of_nat statusCode @ '' when fetching IP. Response: '' @ body"

text \<open>\<^verbatim>\<open>fetchMyIP\<close> (iss.js, lines 12 to 35).\<close>

definition fetchMyIP :: "runtime \<Rightarrow> callback \<Rightarrow> world \<Rightarrow> completion \<times> world" where
  "fetchMyIP rt callback =
     request_get rt ''https://api.ipify.org?format=json'' (\<lambda>reply.
       case reply of
         Failed n m \<Rightarrow> callback (Err n m) Null
       | Replied statusCode body \<Rightarrow>
           if statusCode \<noteq> 200 then
             callback (Err ''Error'' (status_message statusCode body)) Null
           else
             try_catch
               (\<lambda>w. case JSON_parse rt body of
                       Inl m \<Rightarrow> (Throw (Err ''SyntaxError'' m), w)
                     | Inr data \<Rightarrow>
                         (case get_prop data ''ip'' of
                            Inl exn \<Rightarrow> (Throw exn, w)
                          | Inr ip \<Rightarrow> callback Null ip w))
               (\<lambda>error. callback error Null))"

text \<open>
  \<^verbatim>\<open>fetchCoordsByIP\<close> (iss.js, lines 37 to 60). The URL
  \<^verbatim>\<open>`https://ipwho.is/${ip}`\<close> is built before the request is sent: when \<^verbatim>\<open>ip\<close>
  cannot be converted the function throws and sends nothing. \<open>coords_url\<close> is the URL
  of the request that is sent otherwise. The message of line 48 converts
  \<^verbatim>\<open>data.success\<close>, \<^verbatim>\<open>data.message\<close> and \<^verbatim>\<open>data.ip\<close> in this order, inside the
  \<^verbatim>\<open>try\<close> block.
\<close>

definition coords_url :: "runtime \<Rightarrow> jsval \<Rightarrow> string" where
  "coords_url rt ip = ''https://ipwho.is/'' @ text_of (Number_toString rt) ip"

definition success_message :: "runtime \<Rightarrow> jsval \<Rightarrow> jsval \<Rightarrow> jsval \<Rightarrow> jsval + string" where
  "success_message rt success message ip =
     (case to_string (Number_toString rt) success of
        Inl exn \<Rightarrow> Inl exn
      | Inr s \<Rightarrow>
          (case to_string (Number_toString rt) message of
             Inl exn \<Rightarrow> Inl exn
           | Inr m \<Rightarrow>
               (case to_string (Number_toString rt) ip of
                  Inl exn \<Rightarrow> Inl exn
                | Inr i \<Rightarrow>
                    Inr (''Success status was '' @ s @ ''. Server message says: '' @ m @
                         '' when fetching for IP '' @ i))))"

definition fetchCoordsByIP :: "runtime \<Rightarrow> jsval \<Rightarrow> callback \<Rightarrow> world \<Rightarrow> completion \<times> world" where
  "fetchCoordsByIP rt ip callback w =
     (case to_string (Number_toString rt) ip of
        Inl exn \<Rightarrow> (Throw exn, w)
      | Inr address \<Rightarrow>
          request_get rt (''https://ipwho.is/'' @ address) (\<lambda>reply.
            case reply of
              Failed n m \<Rightarrow> callback (Err n m) Null
            | Replied statusCode body \<Rightarrow>
                try_catch
                  (\<lambda>w. case JSON_parse rt body of
                          Inl m \<Rightarrow> (Throw (Err ''SyntaxError'' m), w)
                        | Inr data \<Rightarrow>
                            (case get_prop data ''success'' of
                               Inl exn \<Rightarrow> (Throw exn, w)
                             | Inr success \<Rightarrow>
                                 if \<not> truthy success then
                                   (case get_prop data ''message'' of
                                      Inl exn \<Rightarrow> (Throw exn, w)
                                    | Inr message \<Rightarrow>
                                        (case get_prop data ''ip'' of
                                           Inl exn \<Rightarrow> (Throw exn, w)
                                         | Inr ip' \<Rightarrow>
                                             (case success_message rt success message ip' of
                                                Inl exn \<Rightarrow> (Throw exn, w)
                                              | Inr message \<Rightarrow>
                                                  callback (Err ''Error'' message) Null w)))
                                 else
                                   (case get_prop data ''latitude'' of
                                      Inl exn \<Rightarrow> (Throw exn, w)
                                    | Inr latitude \<Rightarrow>
                                        (case get_prop data ''longitude'' of
                                           Inl exn \<Rightarrow> (Throw exn, w)
                                         | Inr longitude \<Rightarrow>
                                             callback Null
                                               (Obj [(''latitude'', latitude),
                                                     (''longitude'', longitude)]) w))))
                  (\<lambda>error. callback error Null)) w)"

text \<open>
  \<^verbatim>\<open>fetchISSFlyOverTimes\<close> (iss.js, lines 72 to 96). The URL is built from
  \<^verbatim>\<open>coords.latitude\<close> and \<^verbatim>\<open>coords.longitude\<close> before the request is sent: when
  \<^verbatim>\<open>coords\<close> is \<^verbatim>\<open>null\<close> or \<^verbatim>\<open>undefined\<close>, or one of the two cannot be converted,
  the function throws and sends nothing. \<open>flyover_url\<close> is the URL of the request that
  is sent otherwise.
\<close>

definition flyover_url :: "runtime \<Rightarrow> jsval \<Rightarrow> jsval \<Rightarrow> string" where
  "flyover_url rt latitude longitude =
     ''https://iss-flyover.herokuapp.com/json/?lat='' @ text_of (Number_toString rt) latitude @
     ''&lon='' @ text_of (Number_toString rt) longitude"

definition fetchISSFlyOverTimes :: "runtime \<Rightarrow> jsval \<Rightarrow> callback \<Rightarrow> world \<Rightarrow> completion \<times> world" where
  "fetchISSFlyOverTimes rt coords callback w =
     (case get_prop coords ''latitude'' of
        Inl exn \<Rightarrow> (Throw exn, w)
      | Inr latitude \<Rightarrow>
     (case to_string (Number_toString rt) latitude of
        Inl exn \<Rightarrow> (Throw exn, w)
      | Inr lat \<Rightarrow>
     (case get_prop coords ''longitude'' of
        Inl exn \<Rightarrow> (Throw exn, w)
      | Inr longitude \<Rightarrow>
     (case to_string (Number_toString rt) longitude of
        Inl exn \<Rightarrow> (Throw exn, w)
      | Inr lon \<Rightarrow>
          request_get rt (''https://iss-flyover.herokuapp.com/json/?lat='' @ lat @ ''&lon='' @ lon)
            (\<lambda>reply.
               case reply of
                 Failed n m \<Rightarrow> callback (Err n m) Null
               | Replied statusCode body \<Rightarrow>
                   if statusCode \<noteq> 200 then
                     callback (Err ''Error'' (status_message statusCode body)) Null
                   else
                     try_catch
                       (\<lambda>w. case JSON_parse rt body of
                               Inl m \<Rightarrow> (Throw (Err ''SyntaxError'' m), w)
                             | Inr data \<Rightarrow>
                                 (case get_prop data ''response'' of
                                    Inl exn \<Rightarrow> (Throw exn, w)
                                  | Inr response \<Rightarrow> callback Null response w))
                       (\<lambda>error. callback error Null)) w))))"

text \<open>\<^verbatim>\<open>nextISSTimesForMyLocation\<close> (iss.js, lines 107 to 134).\<close>

definition nextISSTimesForMyLocation :: "runtime \<Rightarrow> callback \<Rightarrow> world \<Rightarrow> completion \<times> world" where
  "nextISSTimesForMyLocation rt callback =
     fetchMyIP rt (\<lambda>error ip.
       if truthy error then callback error Null
       else
         fetchCoordsByIP rt ip (\<lambda>error coords.
           if truthy error then callback error Null
           else
             fetchISSFlyOverTimes rt coords (\<lambda>error flyTimes.
               if truthy error then callback error Null
               else callback Null flyTimes)))"

section \<open>The caller (index.js) and what a run shows\<close>

text \<open>
  The completion callback is the caller's code. The program sees two things of it: that
  it was called with \<open>(error, result)\<close>, and whether the call returned or threw; the
  second is the callback's \<open>body\<close>.
\<close>

definition completion_callback :: "(jsval \<Rightarrow> jsval \<Rightarrow> completion) \<Rightarrow> callback" where
  "completion_callback body error result w = (body error result, emit (Callback error result) w)"

text \<open>A callback that always returns.\<close>

definition returns :: "jsval \<Rightarrow> jsval \<Rightarrow> completion" where
  "returns error result = Normal"

text \<open>
  The callback that index.js passes to \<^verbatim>\<open>nextISSTimesForMyLocation\<close>. On an error it
  prints and returns. Otherwise \<^verbatim>\<open>for (const pass of passTimes)\<close> throws a TypeError
  when \<^verbatim>\<open>passTimes\<close> is not iterable (arrays and strings are), and the loop body reads
  \<^verbatim>\<open>pass.risetime\<close>, converts it to a number (\<^verbatim>\<open>setUTCSeconds\<close>), reads
  \<^verbatim>\<open>pass.duration\<close> and converts it to a string (the template literal of the line it
  prints). The lines it prints are not modelled.
\<close>

fun each_pass :: "jsval list \<Rightarrow> completion" where
  "each_pass [] = Normal"
| "each_pass (pass # rest) =
     (case get_prop pass ''risetime'' of
        Inl exn \<Rightarrow> Throw exn
      | Inr risetime \<Rightarrow>
          if unconvertible risetime then Throw cannot_convert
          else
            (case get_prop pass ''duration'' of
               Inl exn \<Rightarrow> Throw exn
             | Inr duration \<Rightarrow>
                 if unconvertible duration then Throw cannot_convert
                 else each_pass rest))"

definition index_callback :: "jsval \<Rightarrow> jsval \<Rightarrow> completion" where
  "index_callback error passTimes =
     (if truthy error then Normal
      else case passTimes of
             Arr xs \<Rightarrow> each_pass xs
           | Str s \<Rightarrow> each_pass (map (\<lambda>c. Str [c]) s)
           | _ \<Rightarrow> Throw (Err ''TypeError'' ''passTimes is not iterable''))"

definition start :: world where
  "start = \<lparr>trace = [], uncaught = None\<rparr>"

fun callbacks_of :: "event list \<Rightarrow> (jsval \<times> jsval) list" where
  "callbacks_of [] = []"
| "callbacks_of (Callback e r # evs) = (e, r) # callbacks_of evs"
| "callbacks_of (Request u # evs) = callbacks_of evs"

fun requests_of :: "event list \<Rightarrow> string list" where
  "requests_of [] = []"
| "requests_of (Request u # evs) = u # requests_of evs"
| "requests_of (Callback e r # evs) = requests_of evs"

text \<open>A run of the orchestrator with a completion callback of the given body.\<close>

definition run :: "runtime \<Rightarrow> (jsval \<Rightarrow> jsval \<Rightarrow> completion) \<Rightarrow> world" where
  "run rt body = snd (nextISSTimesForMyLocation rt (completion_callback body) start)"

text \<open>What a lookup passes to a callback that returns: the calls it makes, in order.\<close>

definition yields :: "(callback \<Rightarrow> world \<Rightarrow> completion \<times> world) \<Rightarrow> (jsval \<times> jsval) list" where
  "yields lookup = callbacks_of (trace (snd (lookup (completion_callback returns) start)))"

text \<open>
  The orchestrator boundary in the spec's words: the completion callback is called
  exactly once, with either an error and a \<^verbatim>\<open>null\<close> result, or a \<^verbatim>\<open>null\<close> error and
  an overpass list (an array).
\<close>

definition error_or_overpass_list :: "jsval \<Rightarrow> jsval \<Rightarrow> bool" where
  "error_or_overpass_list e r =
     ((truthy e \<and> r = Null) \<or> (e = Null \<and> (case r of Arr windows \<Rightarrow> True | _ \<Rightarrow> False)))"

definition called_once_as_specified :: "world \<Rightarrow> bool" where
  "called_once_as_specified w =
     (case callbacks_of (trace w) of
        [(e, r)] \<Rightarrow> error_or_overpass_list e r
      | _ \<Rightarrow> False)"

text \<open>
  A parsed body is missing a field when it is not an object with that key. (None of the
  names the program reads is a property of the other values.)
\<close>

fun has_field :: "jsval \<Rightarrow> string \<Rightarrow> bool" where
  "has_field (Obj kvs) p = (map_of kvs p \<noteq> None)"
| "has_field v p = False"

section \<open>Concrete runs\<close>

text \<open>
  A runtime given by tables, for running the program on concrete replies: the reply to
  each URL (any other URL cannot be reached), what \<^verbatim>\<open>JSON.parse\<close> makes of each body
  (any other body is not JSON), and the digits of each number.
\<close>

definition mock :: "(string \<times> reply) list \<Rightarrow> (string \<times> jsval) list \<Rightarrow> (rat \<times> string) list \<Rightarrow> runtime" where
  "mock replies bodies numbers =
     \<lparr>network = (\<lambda>url. case map_of replies url of
                           None \<Rightarrow> Failed ''Error'' ''getaddrinfo ENOTFOUND''
                         | Some reply \<Rightarrow> reply),
      JSON_parse = (\<lambda>body. case map_of bodies body of
                              None \<Rightarrow> Inl ''Unexpected token''
                            | Some data \<Rightarrow> Inr data),
      Number_toString = (\<lambda>x. case map_of numbers x of None \<Rightarrow> [] | Some s \<Rightarrow> s)\<rparr>"

definition json :: "(string \<times> jsval) list" where
  \<open>json =
     [(''{"ip":"1.2.3.4"}'', Obj [(''ip'', Str ''1.2.3.4'')]),
      (''{"success":true,"latitude":37.1,"longitude":-122.1}'',
         Obj [(''success'', Bool True), (''latitude'', Num (371 / 10)),
              (''longitude'', Num (- 1221 / 10))]),
      (''{"response":[{"risetime":134564234,"duration":600}]}'',
         Obj [(''response'', Arr [Obj [(''risetime'', Num 134564234), (''duration'', Num 600)]])]),
      (''{"success":false,"message":"Invalid IP address","ip":"1.2.3.4"}'',
         Obj [(''success'', Bool False), (''message'', Str ''Invalid IP address''),
              (''ip'', Str ''1.2.3.4'')]),
      (''{"success":0,"message":"down","ip":"1.2.3.4"}'',
         Obj [(''success'', Num 0), (''message'', Str ''down''), (''ip'', Str ''1.2.3.4'')]),
      (''{"latitude":37.1,"longitude":-122.1}'',
         Obj [(''latitude'', Num (371 / 10)), (''longitude'', Num (- 1221 / 10))]),
      (''{"success":true,"longitude":-122.1}'',
         Obj [(''success'', Bool True), (''longitude'', Num (- 1221 / 10))]),
      (''{"success":false,"message":{"toString":1},"ip":"1.2.3.4"}'',
         Obj [(''success'', Bool False), (''message'', Obj [(''toString'', Num 1)]),
              (''ip'', Str ''1.2.3.4'')]),
      (''{"success":true,"latitude":{"toString":1},"longitude":-122.1}'',
         Obj [(''success'', Bool True), (''latitude'', Obj [(''toString'', Num 1)]),
              (''longitude'', Num (- 1221 / 10))]),
      (''null'', Null),
      (''{}'', Obj [])]\<close>

definition digits :: "(rat \<times> string) list" where
  "digits = [(371 / 10, ''37.1''), (- 1221 / 10, ''-122.1''), (0, ''0'')]"

definition ipify :: string where
  "ipify = ''https://api.ipify.org?format=json''"

definition ipwho :: string where
  "ipwho = ''https://ipwho.is/1.2.3.4''"

definition flyover :: string where
  "flyover = ''https://iss-flyover.herokuapp.com/json/?lat=37.1&lon=-122.1''"

text \<open>The three replies of the spec's example: everything succeeds.\<close>

definition found_ip :: "string \<times> reply" where
  \<open>found_ip = (ipify, Replied 200 ''{"ip":"1.2.3.4"}'')\<close>

definition found_coords :: "string \<times> reply" where
  \<open>found_coords = (ipwho, Replied 200 ''{"success":true,"latitude":37.1,"longitude":-122.1}'')\<close>

definition found_passes :: "string \<times> reply" where
  \<open>found_passes = (flyover, Replied 200 ''{"response":[{"risetime":134564234,"duration":600}]}'')\<close>

definition passes :: jsval where
  "passes = Arr [Obj [(''risetime'', Num 134564234), (''duration'', Num 600)]]"

definition position :: jsval where
  "position = Obj [(''latitude'', Num (371 / 10)), (''longitude'', Num (- 1221 / 10))]"

definition all_succeed :: runtime where
  "all_succeed = mock [found_ip, found_coords, found_passes] json digits"

text \<open>Nothing can be reached.\<close>

definition offline :: runtime where
  "offline = mock [] json digits"

text \<open>The geolocation service answers that it did not succeed.\<close>

definition refusal :: string where
  \<open>refusal = ''{"success":false,"message":"Invalid IP address","ip":"1.2.3.4"}''\<close>

definition refused :: runtime where
  "refused = mock [found_ip, (ipwho, Replied 200 refusal)] json digits"

definition zero_success :: string where
  \<open>zero_success = ''{"success":0,"message":"down","ip":"1.2.3.4"}''\<close>

definition no_success :: string where
  \<open>no_success = ''{"latitude":37.1,"longitude":-122.1}''\<close>

definition no_latitude :: string where
  \<open>no_latitude = ''{"success":true,"longitude":-122.1}''\<close>

definition unplaced :: runtime where
  "unplaced = mock [found_ip, (ipwho, Replied 200 no_latitude)] json digits"

text \<open>
  The geolocation service sends an object with a key \<^verbatim>\<open>toString\<close> as its message,
  or as the latitude.
\<close>

definition unprintable_message :: string where
  \<open>unprintable_message = ''{"success":false,"message":{"toString":1},"ip":"1.2.3.4"}''\<close>

definition unreadable :: runtime where
  "unreadable = mock [found_ip, (ipwho, Replied 200 unprintable_message)] json digits"

definition unprintable_latitude :: string where
  \<open>unprintable_latitude = ''{"success":true,"latitude":{"toString":1},"longitude":-122.1}''\<close>

definition misplaced :: runtime where
  "misplaced = mock [found_ip, (ipwho, Replied 200 unprintable_latitude)] json digits"

text \<open>The overpass service answers 500 with the body \<^verbatim>\<open>boom\<close>.\<close>

definition boom :: runtime where
  "boom = mock [(ipify, Replied 500 ''boom''), (flyover, Replied 500 ''boom'')] json digits"

definition overpass_boom :: runtime where
  "overpass_boom = mock [found_ip, found_coords, (flyover, Replied 500 ''boom'')] json digits"

text \<open>Replies with status 200 whose body is the empty object, or is not JSON.\<close>

definition empty_bodies :: runtime where
  "empty_bodies = mock [(ipify, Replied 200 ''{}''), (flyover, Replied 200 ''{}'')] json digits"

definition garbled :: runtime where
  "garbled = mock [(ipify, Replied 200 ''<html>''), (flyover, Replied 200 ''<html>'')] json digits"

definition null_bodies :: runtime where
  "null_bodies = mock [(ipify, Replied 200 ''null''), (flyover, Replied 200 ''null'')] json digits"

definition no_response :: runtime where
  "no_response = mock [found_ip, found_coords, (flyover, Replied 200 ''{}'')] json digits"

section \<open>What a lookup hands to its callback\<close>

text \<open>
  Each lookup ends in one call of its callback, made in one of two places: outside the
  \<^verbatim>\<open>try\<close> block or in its \<^verbatim>\<open>catch\<close> clause (\<open>Direct\<close>: an exception of the callback
  leaves the handler), or inside the \<^verbatim>\<open>try\<close> block (\<open>Guarded\<close>: an exception of the
  callback is caught and the callback is called again, with that exception). The
  functions below compute, from a reply, which call it is; the lemmas
  \<open>fetchMyIP_deliver\<close>, \<open>fetchCoordsByIP_deliver\<close> and \<open>fetchISSFlyOverTimes_deliver\<close>
  show that the lookups do exactly that when they send their request.
\<close>

datatype delivery = Direct jsval jsval | Guarded jsval jsval

fun deliver :: "delivery \<Rightarrow> callback \<Rightarrow> world \<Rightarrow> completion \<times> world" where
  "deliver (Direct e r) k = k e r"
| "deliver (Guarded e r) k = try_catch (k e r) (\<lambda>v. k v Null)"

fun handed :: "delivery \<Rightarrow> jsval \<times> jsval" where
  "handed (Direct e r) = (e, r)"
| "handed (Guarded e r) = (e, r)"

definition field :: "jsval \<Rightarrow> string \<Rightarrow> jsval" where
  "field v p = (case get_prop v p of Inl exn \<Rightarrow> Undefined | Inr x \<Rightarrow> x)"

definition parsed :: "runtime \<Rightarrow> string \<Rightarrow> string \<Rightarrow> delivery" where
  "parsed rt body p =
     (case JSON_parse rt body of
        Inl m \<Rightarrow> Direct (Err ''SyntaxError'' m) Null
      | Inr data \<Rightarrow>
          (case get_prop data p of
             Inl exn \<Rightarrow> Direct exn Null
           | Inr v \<Rightarrow> Guarded Null v))"

definition checked :: "runtime \<Rightarrow> reply \<Rightarrow> string \<Rightarrow> delivery" where
  "checked rt reply p =
     (case reply of
        Failed n m \<Rightarrow> Direct (Err n m) Null
      | Replied statusCode body \<Rightarrow>
          if statusCode \<noteq> 200 then Direct (Err ''Error'' (status_message statusCode body)) Null
          else parsed rt body p)"

definition located :: "runtime \<Rightarrow> reply \<Rightarrow> delivery" where
  "located rt reply =
     (case reply of
        Failed n m \<Rightarrow> Direct (Err n m) Null
      | Replied statusCode body \<Rightarrow>
          (case JSON_parse rt body of
             Inl m \<Rightarrow> Direct (Err ''SyntaxError'' m) Null
           | Inr data \<Rightarrow>
               (case get_prop data ''success'' of
                  Inl exn \<Rightarrow> Direct exn Null
                | Inr success \<Rightarrow>
                    if \<not> truthy success then
                      (case success_message rt success (field data ''message'') (field data ''ip'') of
                         Inl exn \<Rightarrow> Direct exn Null
                       | Inr message \<Rightarrow> Guarded (Err ''Error'' message) Null)
                    else
                      Guarded Null
                        (Obj [(''latitude'', field data ''latitude''),
                              (''longitude'', field data ''longitude'')]))))"

section \<open>The lookups, one reply at a time\<close>

lemma try_catch_throw [simp]: "try_catch (\<lambda>w. (Throw v, w)) handler w = handler v w"
  by (simp add: try_catch_def)

lemma try_catch_returns: "fst (body w) = Normal \<Longrightarrow> try_catch body handler w = body w"
  by (cases "body w") (simp add: try_catch_def)

lemma request_get_returns [simp]: "fst (request_get rt url handler w) = Normal"
  by (simp add: request_get_def split: prod.splits completion.splits)

lemma request_get_cong:
  "handler (network rt url) = handler' (network rt url) \<Longrightarrow>
   request_get rt url handler = request_get rt url handler'"
  by (rule ext) (simp add: request_get_def)

lemma get_prop_Inr: "get_prop v p = Inr x \<Longrightarrow> get_prop v q = Inr (field v q)"
  by (cases v) (simp_all add: field_def)

lemma truthy_cannot_convert [simp]: "truthy cannot_convert"
  by (simp add: cannot_convert_def)

lemma to_string_convertible [simp]: "\<not> unconvertible v \<Longrightarrow> to_string ns v = Inr (text_of ns v)"
  by (simp add: to_string_def)

lemma to_string_unconvertible [simp]: "unconvertible v \<Longrightarrow> to_string ns v = Inl cannot_convert"
  by (simp add: to_string_def)

lemma success_message_cases:
  "success_message rt success message ip = Inl cannot_convert \<or>
   (\<exists>text. success_message rt success message ip = Inr text)"
  by (simp add: success_message_def to_string_def)

lemma fetchMyIP_deliver:
  "fetchMyIP rt k =
     request_get rt ''https://api.ipify.org?format=json'' (\<lambda>reply. deliver (checked rt reply ''ip'') k)"
  unfolding fetchMyIP_def
  by (rule request_get_cong)
     (simp add: checked_def parsed_def try_catch_def fun_eq_iff split: reply.splits sum.splits)

lemma fetchCoordsByIP_throws:
  "unconvertible ip \<Longrightarrow> fetchCoordsByIP rt ip k = (\<lambda>w. (Throw cannot_convert, w))"
  by (rule ext) (simp add: fetchCoordsByIP_def)

lemma fetchCoordsByIP_deliver:
  assumes "\<not> unconvertible ip"
  shows "fetchCoordsByIP rt ip k =
     request_get rt (coords_url rt ip) (\<lambda>reply. deliver (located rt reply) k)"
proof (rule ext)
  fix w
  let ?url = "coords_url rt ip"
  show "fetchCoordsByIP rt ip k w = request_get rt ?url (\<lambda>reply. deliver (located rt reply) k) w"
  proof (cases "network rt ?url")
    case (Failed n m)
    then show ?thesis
      by (simp add: fetchCoordsByIP_def assms coords_url_def request_get_def located_def)
  next
    case (Replied statusCode body)
    show ?thesis
    proof (cases "JSON_parse rt body")
      case (Inl m)
      with Replied show ?thesis
        by (simp add: fetchCoordsByIP_def assms coords_url_def request_get_def located_def)
    next
      case (Inr data)
      show ?thesis
      proof (cases "get_prop data ''success''")
        case (Inl exn)
        with Replied Inr show ?thesis
          by (simp add: fetchCoordsByIP_def assms coords_url_def request_get_def located_def)
      next
        case success: (Inr success)
        note fields = get_prop_Inr [OF success]
        show ?thesis
        proof (cases "success_message rt success (field data ''message'') (field data ''ip'')")
          case (Inl exn)
          with Replied Inr success show ?thesis
            by (simp add: fetchCoordsByIP_def assms coords_url_def request_get_def located_def fields)
        next
          case message: (Inr message)
          with Replied Inr success show ?thesis
            by (simp add: fetchCoordsByIP_def assms coords_url_def request_get_def located_def fields)
        qed
      qed
    qed
  qed
qed

lemma fetchISSFlyOverTimes_deliver:
  assumes "get_prop coords ''latitude'' = Inr latitude" and "get_prop coords ''longitude'' = Inr longitude"
    and "\<not> unconvertible latitude" and "\<not> unconvertible longitude"
  shows "fetchISSFlyOverTimes rt coords k =
     request_get rt (flyover_url rt latitude longitude)
       (\<lambda>reply. deliver (checked rt reply ''response'') k)"
  apply (rule ext)
  apply (simp add: fetchISSFlyOverTimes_def assms flyover_url_def)
  apply (rule fun_cong [OF request_get_cong])
  apply (simp add: checked_def parsed_def try_catch_def fun_eq_iff split: reply.splits sum.splits)
  done

lemma fetchISSFlyOverTimes_throws:
  "unconvertible lat \<or> unconvertible lon \<Longrightarrow>
   fetchISSFlyOverTimes rt (Obj [(''latitude'', lat), (''longitude'', lon)]) k =
     (\<lambda>w. (Throw cannot_convert, w))"
  by (rule ext) (auto simp add: fetchISSFlyOverTimes_def to_string_def)

lemma fetchISSFlyOverTimes_Null:
  "fetchISSFlyOverTimes rt Null k = (\<lambda>w. (Throw (cannot_read ''null'' ''latitude''), w))"
  by (rule ext) (simp add: fetchISSFlyOverTimes_def)

lemma checked_cases:
  "(\<exists>e. checked rt reply p = Direct e Null \<and> truthy e) \<or>
   (\<exists>v. checked rt reply p = Guarded Null v)"
  by (cases reply)
     (auto simp add: checked_def parsed_def cannot_read_def split: sum.splits elim: get_prop.elims)

lemma located_cases:
  "(\<exists>e. located rt reply = Direct e Null \<and> truthy e) \<or>
   (\<exists>e. located rt reply = Guarded e Null \<and> truthy e) \<or>
   (\<exists>lat lon. located rt reply = Guarded Null (Obj [(''latitude'', lat), (''longitude'', lon)]))"
proof (cases reply)
  case (Failed n m)
  then show ?thesis by (simp add: located_def)
next
  case (Replied statusCode body)
  show ?thesis
  proof (cases "JSON_parse rt body")
    case (Inl m)
    with Replied show ?thesis by (simp add: located_def)
  next
    case (Inr data)
    show ?thesis
    proof (cases "get_prop data ''success''")
      case (Inl exn)
      then have "truthy exn" by (cases data) (auto simp add: cannot_read_def)
      with Replied Inr Inl show ?thesis by (simp add: located_def)
    next
      case success: (Inr success)
      from success_message_cases [of rt success "field data ''message''" "field data ''ip''"]
        Replied Inr success
      show ?thesis by (auto simp add: located_def)
    qed
  qed
qed

lemma deliver_returns:
  "deliver d (completion_callback returns) w =
     (Normal, emit (Callback (fst (handed d)) (snd (handed d))) w)"
  by (cases d) (simp_all add: completion_callback_def returns_def try_catch_def)

lemma yields_fetchMyIP:
  "yields (fetchMyIP rt) =
     [handed (checked rt (network rt ''https://api.ipify.org?format=json'') ''ip'')]"
  by (simp add: yields_def fetchMyIP_deliver request_get_def deliver_returns emit_def start_def)

lemma yields_fetchCoordsByIP:
  "\<not> unconvertible ip \<Longrightarrow>
   yields (fetchCoordsByIP rt ip) = [handed (located rt (network rt (coords_url rt ip)))]"
  by (simp add: yields_def fetchCoordsByIP_deliver request_get_def deliver_returns emit_def start_def)

lemma yields_fetchCoordsByIP_throws: "unconvertible ip \<Longrightarrow> yields (fetchCoordsByIP rt ip) = []"
  by (simp add: yields_def fetchCoordsByIP_throws start_def)

lemma yields_fetchISSFlyOverTimes:
  "get_prop coords ''latitude'' = Inr lat \<Longrightarrow> get_prop coords ''longitude'' = Inr lon \<Longrightarrow>
   \<not> unconvertible lat \<Longrightarrow> \<not> unconvertible lon \<Longrightarrow>
   yields (fetchISSFlyOverTimes rt coords) =
     [handed (checked rt (network rt (flyover_url rt lat lon)) ''response'')]"
  by (simp add: yields_def fetchISSFlyOverTimes_deliver request_get_def deliver_returns emit_def
        start_def)

lemma yields_fetchISSFlyOverTimes_throws:
  "unconvertible lat \<or> unconvertible lon \<Longrightarrow>
   yields (fetchISSFlyOverTimes rt (Obj [(''latitude'', lat), (''longitude'', lon)])) = []"
  by (simp add: yields_def fetchISSFlyOverTimes_throws start_def)

section \<open>The orchestrator, one scenario at a time\<close>

lemma ip_failed:
  assumes "checked rt (network rt ''https://api.ipify.org?format=json'') ''ip'' = Direct e Null"
    and "truthy e"
  shows "nextISSTimesForMyLocation rt k =
           request_get rt ''https://api.ipify.org?format=json'' (\<lambda>reply. k e Null)"
  unfolding nextISSTimesForMyLocation_def fetchMyIP_deliver
  by (rule request_get_cong) (simp add: assms)

lemma ip_unprintable:
  assumes "checked rt (network rt ''https://api.ipify.org?format=json'') ''ip'' = Guarded Null ip"
    and "unconvertible ip"
  shows "nextISSTimesForMyLocation rt k =
           request_get rt ''https://api.ipify.org?format=json'' (\<lambda>reply. k cannot_convert Null)"
  unfolding nextISSTimesForMyLocation_def fetchMyIP_deliver
  by (rule request_get_cong) (simp add: assms fun_eq_iff fetchCoordsByIP_throws)

lemma ip_found:
  assumes "checked rt (network rt ''https://api.ipify.org?format=json'') ''ip'' = Guarded Null ip"
    and "\<not> unconvertible ip"
  shows "nextISSTimesForMyLocation rt k =
           request_get rt ''https://api.ipify.org?format=json'' (\<lambda>reply.
             fetchCoordsByIP rt ip (\<lambda>error coords.
               if truthy error then k error Null
               else fetchISSFlyOverTimes rt coords (\<lambda>error flyTimes.
                 if truthy error then k error Null else k Null flyTimes)))"
  unfolding nextISSTimesForMyLocation_def fetchMyIP_deliver
  by (rule request_get_cong)
     (simp add: assms fun_eq_iff fetchCoordsByIP_deliver try_catch_returns)

lemma coords_failed:
  assumes "\<not> unconvertible ip"
    and "located rt (network rt (coords_url rt ip)) = Direct e Null" and "truthy e"
  shows "fetchCoordsByIP rt ip (\<lambda>error coords.
               if truthy error then k error Null
               else fetchISSFlyOverTimes rt coords (\<lambda>error flyTimes.
                 if truthy error then k error Null else k Null flyTimes))
         = request_get rt (coords_url rt ip) (\<lambda>reply. k e Null)"
  unfolding fetchCoordsByIP_deliver [OF assms(1)]
  by (rule request_get_cong) (simp add: assms)

lemma coords_refused:
  assumes "\<not> unconvertible ip"
    and "located rt (network rt (coords_url rt ip)) = Guarded e Null" and "truthy e"
  shows "fetchCoordsByIP rt ip (\<lambda>error coords.
               if truthy error then k error Null
               else fetchISSFlyOverTimes rt coords (\<lambda>error flyTimes.
                 if truthy error then k error Null else k Null flyTimes))
         = request_get rt (coords_url rt ip) (\<lambda>reply.
             try_catch (k e Null) (\<lambda>v. if truthy v then k v Null
                                        else (\<lambda>w. (Throw (cannot_read ''null'' ''latitude''), w))))"
  unfolding fetchCoordsByIP_deliver [OF assms(1)]
  by (rule request_get_cong) (simp add: assms fetchISSFlyOverTimes_Null cong: if_cong)

lemma coords_unprintable:
  assumes "\<not> unconvertible ip"
    and "located rt (network rt (coords_url rt ip)) =
             Guarded Null (Obj [(''latitude'', lat), (''longitude'', lon)])"
    and "unconvertible lat \<or> unconvertible lon"
  shows "fetchCoordsByIP rt ip (\<lambda>error coords.
               if truthy error then k error Null
               else fetchISSFlyOverTimes rt coords (\<lambda>error flyTimes.
                 if truthy error then k error Null else k Null flyTimes))
         = request_get rt (coords_url rt ip) (\<lambda>reply. k cannot_convert Null)"
  unfolding fetchCoordsByIP_deliver [OF assms(1)]
  by (rule request_get_cong)
     (simp add: assms(2) fun_eq_iff fetchISSFlyOverTimes_throws [OF assms(3)])

lemma coords_found:
  assumes "\<not> unconvertible ip"
    and "located rt (network rt (coords_url rt ip)) =
             Guarded Null (Obj [(''latitude'', lat), (''longitude'', lon)])"
    and "\<not> unconvertible lat" and "\<not> unconvertible lon"
  shows "fetchCoordsByIP rt ip (\<lambda>error coords.
               if truthy error then k error Null
               else fetchISSFlyOverTimes rt coords (\<lambda>error flyTimes.
                 if truthy error then k error Null else k Null flyTimes))
         = request_get rt (coords_url rt ip) (\<lambda>reply.
             request_get rt (flyover_url rt lat lon) (\<lambda>reply.
               deliver (checked rt reply ''response'')
                 (\<lambda>error flyTimes. if truthy error then k error Null else k Null flyTimes)))"
  unfolding fetchCoordsByIP_deliver [OF assms(1)]
  by (rule request_get_cong)
     (simp add: assms fun_eq_iff fetchISSFlyOverTimes_deliver try_catch_returns)

lemma trace_ip_failed:
  assumes "checked rt (network rt ''https://api.ipify.org?format=json'') ''ip'' = Direct e Null"
    and "truthy e"
  shows "trace (snd (nextISSTimesForMyLocation rt (completion_callback body) w)) =
           trace w @ [Request ''https://api.ipify.org?format=json'', Callback e Null]"
  by (simp add: ip_failed [OF assms] request_get_def completion_callback_def emit_def
        split: completion.splits)

lemma trace_ip_unprintable:
  assumes "checked rt (network rt ''https://api.ipify.org?format=json'') ''ip'' = Guarded Null ip"
    and "unconvertible ip"
  shows "trace (snd (nextISSTimesForMyLocation rt (completion_callback body) w)) =
           trace w @ [Request ''https://api.ipify.org?format=json'', Callback cannot_convert Null]"
  by (simp add: ip_unprintable [OF assms] request_get_def completion_callback_def emit_def
        split: completion.splits)

lemma trace_coords_failed:
  assumes "checked rt (network rt ''https://api.ipify.org?format=json'') ''ip'' = Guarded Null ip"
    and "\<not> unconvertible ip"
    and "located rt (network rt (coords_url rt ip)) = Direct e Null" and "truthy e"
  shows "trace (snd (nextISSTimesForMyLocation rt (completion_callback body) w)) =
           trace w @ [Request ''https://api.ipify.org?format=json'', Request (coords_url rt ip),
                      Callback e Null]"
  by (simp add: ip_found [OF assms(1,2)] coords_failed [OF assms(2,3,4)] request_get_def
        completion_callback_def emit_def split: completion.splits)

lemma trace_coords_refused:
  assumes "checked rt (network rt ''https://api.ipify.org?format=json'') ''ip'' = Guarded Null ip"
    and "\<not> unconvertible ip"
    and "located rt (network rt (coords_url rt ip)) = Guarded e Null" and "truthy e"
  shows "trace (snd (nextISSTimesForMyLocation rt (completion_callback body) w)) =
           trace w @ [Request ''https://api.ipify.org?format=json'', Request (coords_url rt ip),
                      Callback e Null] @
           (case body e Null of
              Normal \<Rightarrow> []
            | Throw v \<Rightarrow> if truthy v then [Callback v Null] else [])"
  by (simp add: ip_found [OF assms(1,2)] coords_refused [OF assms(2,3,4)] request_get_def
        try_catch_def completion_callback_def emit_def split: completion.splits)

lemma trace_coords_unprintable:
  assumes "checked rt (network rt ''https://api.ipify.org?format=json'') ''ip'' = Guarded Null ip"
    and "\<not> unconvertible ip"
    and "located rt (network rt (coords_url rt ip)) =
           Guarded Null (Obj [(''latitude'', lat), (''longitude'', lon)])"
    and "unconvertible lat \<or> unconvertible lon"
  shows "trace (snd (nextISSTimesForMyLocation rt (completion_callback body) w)) =
           trace w @ [Request ''https://api.ipify.org?format=json'', Request (coords_url rt ip),
                      Callback cannot_convert Null]"
  by (simp add: ip_found [OF assms(1,2)] coords_unprintable [OF assms(2,3,4)] request_get_def
        completion_callback_def emit_def split: completion.splits)

lemma trace_flyover_failed:
  assumes "checked rt (network rt ''https://api.ipify.org?format=json'') ''ip'' = Guarded Null ip"
    and "\<not> unconvertible ip"
    and "located rt (network rt (coords_url rt ip)) =
           Guarded Null (Obj [(''latitude'', lat), (''longitude'', lon)])"
    and "\<not> unconvertible lat" and "\<not> unconvertible lon"
    and "checked rt (network rt (flyover_url rt lat lon)) ''response'' = Direct e Null"
    and "truthy e"
  shows "trace (snd (nextISSTimesForMyLocation rt (completion_callback body) w)) =
           trace w @ [Request ''https://api.ipify.org?format=json'', Request (coords_url rt ip),
                      Request (flyover_url rt lat lon), Callback e Null]"
  by (simp add: ip_found [OF assms(1,2)] coords_found [OF assms(2,3,4,5)] assms(6,7) request_get_def
        completion_callback_def emit_def split: completion.splits)

lemma trace_flyover_found:
  assumes "checked rt (network rt ''https://api.ipify.org?format=json'') ''ip'' = Guarded Null ip"
    and "\<not> unconvertible ip"
    and "located rt (network rt (coords_url rt ip)) =
           Guarded Null (Obj [(''latitude'', lat), (''longitude'', lon)])"
    and "\<not> unconvertible lat" and "\<not> unconvertible lon"
    and "checked rt (network rt (flyover_url rt lat lon)) ''response'' = Guarded Null flyTimes"
  shows "trace (snd (nextISSTimesForMyLocation rt (completion_callback body) w)) =
           trace w @ [Request ''https://api.ipify.org?format=json'', Request (coords_url rt ip),
                      Request (flyover_url rt lat lon), Callback Null flyTimes] @
           (case body Null flyTimes of
              Normal \<Rightarrow> []
            | Throw v \<Rightarrow> [Callback (if truthy v then v else Null) Null])"
  by (simp add: ip_found [OF assms(1,2)] coords_found [OF assms(2,3,4,5)] assms(6) request_get_def
        try_catch_def completion_callback_def emit_def split: completion.splits)

section \<open>From what a lookup yields to what it hands over\<close>

lemma checked_failed:
  "handed (checked rt reply p) = (e, r) \<Longrightarrow> truthy e \<Longrightarrow> checked rt reply p = Direct e Null"
  using checked_cases [of rt reply p] by auto

lemma checked_found:
  "handed (checked rt reply p) = (e, r) \<Longrightarrow> \<not> truthy e \<Longrightarrow> checked rt reply p = Guarded Null r"
  using checked_cases [of rt reply p] by auto

lemma located_failed:
  "handed (located rt reply) = (e, r) \<Longrightarrow> truthy e \<Longrightarrow>
   located rt reply = Direct e Null \<or> located rt reply = Guarded e Null"
  using located_cases [of rt reply] by auto

lemma located_found:
  "handed (located rt reply) = (e, r) \<Longrightarrow> \<not> truthy e \<Longrightarrow>
   \<exists>lat lon. r = Obj [(''latitude'', lat), (''longitude'', lon)] \<and> located rt reply = Guarded Null r"
  using located_cases [of rt reply] by auto

lemma checked_Guarded:
  "checked rt reply p = Guarded e v \<Longrightarrow>
   \<exists>body data. reply = Replied 200 body \<and> JSON_parse rt body = Inr data \<and> get_prop data p = Inr v"
  by (cases reply) (auto simp add: checked_def parsed_def split: if_splits sum.splits)

lemma field_eq: "get_prop v p = Inr x \<Longrightarrow> field v p = x"
  by (simp add: field_def)

lemma yields_parsed:
  assumes "network rt ''https://api.ipify.org?format=json'' = Replied 200 body"
    and "JSON_parse rt body = Inr data"
  shows "yields (fetchMyIP rt) =
           [case get_prop data ''ip'' of Inl exn \<Rightarrow> (exn, Null) | Inr ip \<Rightarrow> (Null, ip)]"
  by (simp add: yields_fetchMyIP checked_def parsed_def assms split: sum.splits)

lemma yields_parsed_flyover:
  assumes "get_prop coords ''latitude'' = Inr lat" and "get_prop coords ''longitude'' = Inr lon"
    and "\<not> unconvertible lat" and "\<not> unconvertible lon"
    and "network rt (flyover_url rt lat lon) = Replied 200 body"
    and "JSON_parse rt body = Inr data"
  shows "yields (fetchISSFlyOverTimes rt coords) =
           [case get_prop data ''response'' of Inl exn \<Rightarrow> (exn, Null) | Inr v \<Rightarrow> (Null, v)]"
  by (simp add: yields_fetchISSFlyOverTimes [OF assms(1,2,3,4)] checked_def parsed_def assms(5,6)
        split: sum.splits)

lemma yields_located:
  assumes "\<not> unconvertible ip"
    and "network rt (coords_url rt ip) = Replied statusCode body"
    and "JSON_parse rt body = Inr data"
    and "get_prop data ''success'' = Inr success"
  shows "yields (fetchCoordsByIP rt ip) =
           [if \<not> truthy success
            then (case success_message rt success (field data ''message'') (field data ''ip'') of
                    Inl exn \<Rightarrow> (exn, Null)
                  | Inr message \<Rightarrow> (Err ''Error'' message, Null))
            else (Null, Obj [(''latitude'', field data ''latitude''),
                             (''longitude'', field data ''longitude'')])]"
  by (simp add: yields_fetchCoordsByIP located_def assms split: sum.splits)



section \<open>Every run is one of six\<close>

lemma requests_of_append [simp]: "requests_of (xs @ ys) = requests_of xs @ requests_of ys"
  by (induction xs rule: requests_of.induct) simp_all

lemma callbacks_of_append [simp]: "callbacks_of (xs @ ys) = callbacks_of xs @ callbacks_of ys"
  by (induction xs rule: callbacks_of.induct) simp_all

lemma trace_coords_error:
  assumes "checked rt (network rt ''https://api.ipify.org?format=json'') ''ip'' = Guarded Null ip"
    and "\<not> unconvertible ip"
    and "handed (located rt (network rt (coords_url rt ip))) = (e, r)" and "truthy e"
  shows "\<exists>rest. (\<forall>w. trace (snd (nextISSTimesForMyLocation rt (completion_callback body) w)) =
           trace w @ [Request ''https://api.ipify.org?format=json'', Request (coords_url rt ip),
                      Callback e Null] @ rest) \<and>
           requests_of rest = [] \<and> (body e Null = Normal \<longrightarrow> rest = [])"
proof -
  from located_failed [OF assms(3,4)] show ?thesis
  proof
    assume "located rt (network rt (coords_url rt ip)) = Direct e Null"
    from trace_coords_failed [OF assms(1,2) this assms(4), of body]
    show ?thesis by (intro exI [of _ "[]"]) simp
  next
    assume "located rt (network rt (coords_url rt ip)) = Guarded e Null"
    from trace_coords_refused [OF assms(1,2) this assms(4), of body]
    show ?thesis
      by (intro exI [of _ "case body e Null of Normal \<Rightarrow> []
                            | Throw v \<Rightarrow> if truthy v then [Callback v Null] else []"])
         (simp split: completion.splits)
  qed
qed

lemma run_cases:
  fixes rt :: runtime and body :: "jsval \<Rightarrow> jsval \<Rightarrow> completion"
  obtains
    (ip_failed) e where "truthy e"
      "yields (fetchMyIP rt) = [(e, Null)]"
      "\<And>w. trace (snd (nextISSTimesForMyLocation rt (completion_callback body) w)) =
              trace w @ [Request ''https://api.ipify.org?format=json'', Callback e Null]"
  | (ip_unprintable) ip where "unconvertible ip"
      "yields (fetchMyIP rt) = [(Null, ip)]"
      "yields (fetchCoordsByIP rt ip) = []"
      "\<And>w. trace (snd (nextISSTimesForMyLocation rt (completion_callback body) w)) =
              trace w @ [Request ''https://api.ipify.org?format=json'', Callback cannot_convert Null]"
  | (coords_failed) ip e rest where "truthy e" "\<not> unconvertible ip"
      "yields (fetchMyIP rt) = [(Null, ip)]"
      "yields (fetchCoordsByIP rt ip) = [(e, Null)]"
      "\<And>w. trace (snd (nextISSTimesForMyLocation rt (completion_callback body) w)) =
              trace w @ [Request ''https://api.ipify.org?format=json'', Request (coords_url rt ip),
                         Callback e Null] @ rest"
      "requests_of rest = []" "body e Null = Normal \<Longrightarrow> rest = []"
  | (coords_unprintable) ip lat lon where "\<not> unconvertible ip"
      "unconvertible lat \<or> unconvertible lon"
      "yields (fetchMyIP rt) = [(Null, ip)]"
      "yields (fetchCoordsByIP rt ip) = [(Null, Obj [(''latitude'', lat), (''longitude'', lon)])]"
      "yields (fetchISSFlyOverTimes rt (Obj [(''latitude'', lat), (''longitude'', lon)])) = []"
      "\<And>w. trace (snd (nextISSTimesForMyLocation rt (completion_callback body) w)) =
              trace w @ [Request ''https://api.ipify.org?format=json'', Request (coords_url rt ip),
                         Callback cannot_convert Null]"
  | (flyover_failed) ip lat lon e where "truthy e" "\<not> unconvertible ip"
      "\<not> unconvertible lat" "\<not> unconvertible lon"
      "yields (fetchMyIP rt) = [(Null, ip)]"
      "yields (fetchCoordsByIP rt ip) = [(Null, Obj [(''latitude'', lat), (''longitude'', lon)])]"
      "yields (fetchISSFlyOverTimes rt (Obj [(''latitude'', lat), (''longitude'', lon)])) = [(e, Null)]"
      "\<And>w. trace (snd (nextISSTimesForMyLocation rt (completion_callback body) w)) =
              trace w @ [Request ''https://api.ipify.org?format=json'', Request (coords_url rt ip),
                         Request (flyover_url rt lat lon), Callback e Null]"
  | (found) ip lat lon flyTimes rest where "\<not> unconvertible ip"
      "\<not> unconvertible lat" "\<not> unconvertible lon"
      "yields (fetchMyIP rt) = [(Null, ip)]"
      "yields (fetchCoordsByIP rt ip) = [(Null, Obj [(''latitude'', lat), (''longitude'', lon)])]"
      "yields (fetchISSFlyOverTimes rt (Obj [(''latitude'', lat), (''longitude'', lon)])) =
         [(Null, flyTimes)]"
      "\<And>w. trace (snd (nextISSTimesForMyLocation rt (completion_callback body) w)) =
              trace w @ [Request ''https://api.ipify.org?format=json'', Request (coords_url rt ip),
                         Request (flyover_url rt lat lon), Callback Null flyTimes] @ rest"
      "requests_of rest = []" "body Null flyTimes = Normal \<Longrightarrow> rest = []"
proof -
  let ?d1 = "checked rt (network rt ''https://api.ipify.org?format=json'') ''ip''"
  from checked_cases [of rt "network rt ''https://api.ipify.org?format=json''" "''ip''"]
  consider (failed) e where "?d1 = Direct e Null" "truthy e" | (ip) ip where "?d1 = Guarded Null ip"
    by auto
  then show thesis
  proof cases
    case failed
    from trace_ip_failed [OF failed, of body] failed show thesis
      by (intro ip_failed [of e]) (simp_all add: yields_fetchMyIP)
  next
    case ip
    then have found_ip: "yields (fetchMyIP rt) = [(Null, ip)]" by (simp add: yields_fetchMyIP)
    show thesis
    proof (cases "unconvertible ip")
      case True
      from trace_ip_unprintable [OF ip True, of body] found_ip True show thesis
        by (intro ip_unprintable [of ip]) (simp_all add: yields_fetchCoordsByIP_throws)
    next
      case printable: False
      let ?d2 = "located rt (network rt (coords_url rt ip))"
      from located_cases [of rt "network rt (coords_url rt ip)"]
      consider (failed) e where "handed ?d2 = (e, Null)" "truthy e"
        | (coords) lat lon where "?d2 = Guarded Null (Obj [(''latitude'', lat), (''longitude'', lon)])"
        by auto
      then show thesis
      proof cases
        case failed
        from trace_coords_error [OF ip printable failed, of body] obtain rest where
          "\<And>w. trace (snd (nextISSTimesForMyLocation rt (completion_callback body) w)) =
                trace w @ [Request ''https://api.ipify.org?format=json'', Request (coords_url rt ip),
                           Callback e Null] @ rest"
          "requests_of rest = []" "body e Null = Normal \<longrightarrow> rest = []"
          by blast
        with failed found_ip printable show thesis
          by (intro coords_failed [of e ip rest]) (simp_all add: yields_fetchCoordsByIP)
      next
        case coords
        let ?d3 = "checked rt (network rt (flyover_url rt lat lon)) ''response''"
        from coords printable have found_coords: "yields (fetchCoordsByIP rt ip) =
            [(Null, Obj [(''latitude'', lat), (''longitude'', lon)])]"
          by (simp add: yields_fetchCoordsByIP)
        show thesis
        proof (cases "unconvertible lat \<or> unconvertible lon")
          case True
          from trace_coords_unprintable [OF ip printable coords True, of body]
            found_ip found_coords printable True
          show thesis
            by (intro coords_unprintable [of ip lat lon])
               (simp_all add: yields_fetchISSFlyOverTimes_throws)
        next
          case False
          then have lat: "\<not> unconvertible lat" and lon: "\<not> unconvertible lon" by simp_all
          from checked_cases [of rt "network rt (flyover_url rt lat lon)" "''response''"]
          consider (failed) e where "?d3 = Direct e Null" "truthy e"
            | (passes) flyTimes where "?d3 = Guarded Null flyTimes"
            by auto
          then show thesis
          proof cases
            case failed
            from trace_flyover_failed [OF ip printable coords lat lon failed, of body]
              failed found_ip found_coords printable lat lon
            show thesis
              by (intro flyover_failed [of e ip lat lon])
                 (simp_all add: yields_fetchISSFlyOverTimes)
          next
            case passes
            from trace_flyover_found [OF ip printable coords lat lon passes, of body]
              passes found_ip found_coords printable lat lon
            show thesis
              by (intro found [of ip lat lon flyTimes
                    "case body Null flyTimes of Normal \<Rightarrow> []
                     | Throw v \<Rightarrow> [Callback (if truthy v then v else Null) Null]"])
                 (simp_all add: yields_fetchISSFlyOverTimes split: completion.splits)
          qed
        qed
      qed
    qed
  qed
qed

section \<open>The text of a status error\<close>

lemma digit_char_inj: "d < 10 \<Longrightarrow> d' < 10 \<Longrightarrow> digit_char d = digit_char d' \<Longrightarrow> d = d'"
  by (simp add: digit_char_def nth_eq_iff_index_eq)

lemma digit_char_mem: "d < 10 \<Longrightarrow> digit_char d \<in> set ''0123456789''"
  unfolding digit_char_def by (rule nth_mem) simp

lemma string_of_nat_digits: "set (string_of_nat n) \<subseteq> set ''0123456789''"
proof (induction n rule: string_of_nat.induct)
  case (1 n)
  show ?case
  proof (cases "n < 10")
    case True
    with digit_char_mem [of n] show ?thesis by (subst string_of_nat.simps) simp
  next
    case False
    with 1 digit_char_mem [of "n mod 10"] show ?thesis
      by (subst string_of_nat.simps) simp
  qed
qed

lemma string_of_nat_nonempty: "string_of_nat n \<noteq> []"
  by (subst string_of_nat.simps) simp

lemma string_of_nat_inj: "string_of_nat n = string_of_nat m \<Longrightarrow> n = m"
proof (induction n arbitrary: m rule: string_of_nat.induct)
  case (1 n)
  show ?case
  proof (cases "n < 10")
    case small: True
    then have n: "string_of_nat n = [digit_char n]" by (subst string_of_nat.simps) simp
    show ?thesis
    proof (cases "m < 10")
      case True
      then have "string_of_nat m = [digit_char m]" by (subst string_of_nat.simps) simp
      with n "1.prems" small True show ?thesis by (auto dest: digit_char_inj)
    next
      case False
      then have "string_of_nat m = string_of_nat (m div 10) @ [digit_char (m mod 10)]"
        by (subst string_of_nat.simps) simp
      with n "1.prems" string_of_nat_nonempty [of "m div 10"] show ?thesis by simp
    qed
  next
    case big: False
    then have n: "string_of_nat n = string_of_nat (n div 10) @ [digit_char (n mod 10)]"
      by (subst string_of_nat.simps) simp
    show ?thesis
    proof (cases "m < 10")
      case True
      then have "string_of_nat m = [digit_char m]" by (subst string_of_nat.simps) simp
      with n "1.prems" string_of_nat_nonempty [of "n div 10"] show ?thesis by simp
    next
      case False
      then have "string_of_nat m = string_of_nat (m div 10) @ [digit_char (m mod 10)]"
        by (subst string_of_nat.simps) simp
      with n "1.prems" have "string_of_nat (n div 10) = string_of_nat (m div 10)"
        and d: "digit_char (n mod 10) = digit_char (m mod 10)" by simp_all
      with "1.IH" big have "n div 10 = m div 10" by simp
      moreover from d have "n mod 10 = m mod 10" by (rule digit_char_inj [rotated 2]) simp_all
      ultimately show ?thesis by (metis div_mult_mod_eq)
    qed
  qed
qed

lemma split_at_separator:
  "xs @ c # ys = xs' @ c # ys' \<Longrightarrow> c \<notin> set xs \<Longrightarrow> c \<notin> set xs' \<Longrightarrow> xs = xs' \<and> ys = ys'"
proof (induction xs arbitrary: xs')
  case Nil
  then show ?case by (cases xs') auto
next
  case (Cons x xs)
  then show ?case by (cases xs') auto
qed

lemma status_message_inj:
  assumes "status_message c b = status_message c' b'"
  shows "c = c' \<and> b = b'"
proof -
  have sp: "CHR '' '' \<notin> set (string_of_nat n)" for n
    using string_of_nat_digits [of n] by auto
  from assms have "string_of_nat c @ CHR '' '' # (''when fetching IP. Response: '' @ b) =
                   string_of_nat c' @ CHR '' '' # (''when fetching IP. Response: '' @ b')"
    by (simp add: status_message_def)
  from split_at_separator [OF this sp sp] show ?thesis
    by (auto dest: string_of_nat_inj)
qed

lemma coords_url_network [simp]: "coords_url (rt\<lparr>network := f\<rparr>) ip = coords_url rt ip"
  by (simp add: coords_url_def)

lemma located_network [simp]: "located (rt\<lparr>network := f\<rparr>) reply = located rt reply"
  by (simp add: located_def success_message_def split: reply.splits sum.splits)


lemma success_message_text:
  "\<not> unconvertible success \<Longrightarrow> \<not> unconvertible message \<Longrightarrow> \<not> unconvertible ip \<Longrightarrow>
   success_message rt success message ip =
     Inr (''Success status was '' @ text_of (Number_toString rt) success @
          ''. Server message says: '' @ text_of (Number_toString rt) message @
          '' when fetching for IP '' @ text_of (Number_toString rt) ip)"
  by (simp add: success_message_def)

lemma success_message_throws:
  "unconvertible success \<or> unconvertible message \<or> unconvertible ip \<Longrightarrow>
   success_message rt success message ip = Inl cannot_convert"
  by (auto simp add: success_message_def to_string_def)

lemma located_status: "located rt (Replied statusCode body) = located rt (Replied statusCode' body)"
  by (simp add: located_def)

section \<open>Evaluating concrete runs\<close>

lemmas fixtures = all_succeed_def offline_def refused_def unplaced_def boom_def overpass_boom_def
  empty_bodies_def garbled_def no_response_def mock_def found_ip_def found_coords_def
  found_passes_def ipify_def ipwho_def flyover_def refusal_def zero_success_def no_success_def
  no_latitude_def json_def digits_def passes_def position_def unreadable_def misplaced_def
  unprintable_message_def unprintable_latitude_def null_bodies_def

lemmas program = run_def yields_def start_def nextISSTimesForMyLocation_def fetchMyIP_def
  fetchCoordsByIP_def fetchISSFlyOverTimes_def request_get_def try_catch_def
  completion_callback_def emit_def coords_url_def flyover_url_def success_message_def
  status_message_def returns_def index_callback_def to_string_def

section \<open>The claims\<close>

text \<open>
  C1. When a lookup fails (it yields a truthy error), the orchestrator sends no further
  request and calls the completion callback with that error, unchanged, and \<^verbatim>\<open>null\<close>.
  If the IP lookup fails, the run is the IP request and that one call. If the geolocation
  lookup fails, the requests are the IP request and the geolocation request, the first
  call of the callback has that error and \<^verbatim>\<open>null\<close>, and it is the only call when it
  returns. If the overpass lookup fails, the run is the three requests and that one call.
\<close>

theorem orchestrator_short_circuits:
  "(yields (fetchMyIP rt) = [(e, r)] \<and> truthy e \<longrightarrow>
      trace (run rt body) = [Request ''https://api.ipify.org?format=json'', Callback e Null]) \<and>
   (yields (fetchMyIP rt) = [(e1, ip)] \<and> \<not> truthy e1 \<and>
    yields (fetchCoordsByIP rt ip) = [(e, r)] \<and> truthy e \<longrightarrow>
      requests_of (trace (run rt body)) = [''https://api.ipify.org?format=json'', coords_url rt ip] \<and>
      (\<exists>rest. callbacks_of (trace (run rt body)) = (e, Null) # rest \<and>
              (body e Null = Normal \<longrightarrow> rest = []))) \<and>
   (yields (fetchMyIP rt) = [(e1, ip)] \<and> \<not> truthy e1 \<and>
    yields (fetchCoordsByIP rt ip) = [(e2, coords)] \<and> \<not> truthy e2 \<and>
    yields (fetchISSFlyOverTimes rt coords) = [(e, r)] \<and> truthy e \<longrightarrow>
      (\<exists>url. trace (run rt body) =
         [Request ''https://api.ipify.org?format=json'', Request (coords_url rt ip), Request url,
          Callback e Null]))"
proof (intro conjI impI)
  assume "yields (fetchMyIP rt) = [(e, r)] \<and> truthy e"
  then show "trace (run rt body) = [Request ''https://api.ipify.org?format=json'', Callback e Null]"
    by (cases rt body rule: run_cases) (auto simp add: run_def start_def)
next
  assume a: "yields (fetchMyIP rt) = [(e1, ip)] \<and> \<not> truthy e1 \<and>
    yields (fetchCoordsByIP rt ip) = [(e, r)] \<and> truthy e"
  then show "requests_of (trace (run rt body)) =
      [''https://api.ipify.org?format=json'', coords_url rt ip]"
    by (cases rt body rule: run_cases) (auto simp add: run_def start_def)
  from a show "\<exists>rest. callbacks_of (trace (run rt body)) = (e, Null) # rest \<and>
              (body e Null = Normal \<longrightarrow> rest = [])"
    by (cases rt body rule: run_cases) (auto simp add: run_def start_def)
next
  assume "yields (fetchMyIP rt) = [(e1, ip)] \<and> \<not> truthy e1 \<and>
    yields (fetchCoordsByIP rt ip) = [(e2, coords)] \<and> \<not> truthy e2 \<and>
    yields (fetchISSFlyOverTimes rt coords) = [(e, r)] \<and> truthy e"
  then show "\<exists>url. trace (run rt body) =
         [Request ''https://api.ipify.org?format=json'', Request (coords_url rt ip), Request url,
          Callback e Null]"
    by (cases rt body rule: run_cases) (auto simp add: run_def start_def)
qed

theorem orchestrator_short_circuits_witness:
  "trace (run offline index_callback) =
     [Request ipify, Callback (Err ''Error'' ''getaddrinfo ENOTFOUND'') Null] \<and>
   requests_of (trace (run refused index_callback)) = [ipify, ipwho] \<and>
   callbacks_of (trace (run refused index_callback)) =
     [(Err ''Error''
        ''Success status was false. Server message says: Invalid IP address when fetching for IP 1.2.3.4'',
       Null)] \<and>
   callbacks_of (trace (run overpass_boom index_callback)) =
     [(Err ''Error'' ''Status Code 500 when fetching IP. Response: boom'', Null)]"
proof -
  let ?unreachable = "Err ''Error'' ''getaddrinfo ENOTFOUND''"
  let ?refusal = "Err ''Error''
    ''Success status was false. Server message says: Invalid IP address when fetching for IP 1.2.3.4''"
  let ?boom = "Err ''Error'' ''Status Code 500 when fetching IP. Response: boom''"
  have offline: "yields (fetchMyIP offline) = [(?unreachable, Null)]"
    by (simp add: fixtures program)
  have refused: "yields (fetchMyIP refused) = [(Null, Str ''1.2.3.4'')]"
    "yields (fetchCoordsByIP refused (Str ''1.2.3.4'')) = [(?refusal, Null)]"
    "coords_url refused (Str ''1.2.3.4'') = ipwho"
    "index_callback ?refusal Null = Normal"
    by (simp_all add: fixtures program)
  have boom: "yields (fetchMyIP overpass_boom) = [(Null, Str ''1.2.3.4'')]"
    "yields (fetchCoordsByIP overpass_boom (Str ''1.2.3.4'')) = [(Null, position)]"
    "yields (fetchISSFlyOverTimes overpass_boom position) = [(?boom, Null)]"
    by (simp_all add: fixtures program string_of_nat.simps digit_char_def)
  from orchestrator_short_circuits [of offline ?unreachable Null index_callback]
  have "trace (run offline index_callback) = [Request ipify, Callback ?unreachable Null]"
    by (simp add: offline ipify_def)
  moreover
  from orchestrator_short_circuits [of refused ?refusal Null index_callback Null "Str ''1.2.3.4''"]
  have "requests_of (trace (run refused index_callback)) = [ipify, ipwho]"
    and "callbacks_of (trace (run refused index_callback)) = [(?refusal, Null)]"
    by (auto simp add: refused ipify_def)
  moreover
  from orchestrator_short_circuits [of overpass_boom ?boom Null index_callback
      Null "Str ''1.2.3.4''" Null position]
  have "callbacks_of (trace (run overpass_boom index_callback)) = [(?boom, Null)]"
    by (auto simp add: boom)
  ultimately show ?thesis by simp
qed

text \<open>
  C2. When the three lookups succeed, the first call of the completion callback has a
  \<^verbatim>\<open>null\<close> error and, as its result, the very value the overpass lookup yields; when
  that call returns it is the only call.
\<close>

theorem orchestrator_passes_overpass_list:
  assumes "yields (fetchMyIP rt) = [(e1, ip)]" and "\<not> truthy e1"
    and "yields (fetchCoordsByIP rt ip) = [(e2, coords)]" and "\<not> truthy e2"
    and "yields (fetchISSFlyOverTimes rt coords) = [(e3, flyTimes)]" and "\<not> truthy e3"
  shows "\<exists>rest. callbacks_of (trace (run rt body)) = (Null, flyTimes) # rest \<and>
                (body Null flyTimes = Normal \<longrightarrow> rest = [])"
  using assms by (cases rt body rule: run_cases) (auto simp add: run_def start_def)

theorem orchestrator_passes_overpass_list_witness:
  "callbacks_of (trace (run all_succeed index_callback)) =
     [(Null, Arr [Obj [(''risetime'', Num 134564234), (''duration'', Num 600)]])]"
proof -
  have "yields (fetchMyIP all_succeed) = [(Null, Str ''1.2.3.4'')]"
    and "yields (fetchCoordsByIP all_succeed (Str ''1.2.3.4'')) = [(Null, position)]"
    and "yields (fetchISSFlyOverTimes all_succeed position) = [(Null, passes)]"
    and "\<not> truthy Null"
    by (simp_all add: fixtures program)
  from orchestrator_passes_overpass_list [OF this(1,4,2,4,3,4), of index_callback]
  show ?thesis
    by (auto simp add: passes_def index_callback_def)
qed

text \<open>
  C3, as amended. When the geolocation payload has \<^verbatim>\<open>success: false\<close>, the lookup
  yields an error whose message is built around the payload's fields:
  \<^verbatim>\<open>Success status was false. Server message says: <message> when fetching for IP <ip>\<close>.
  The payload's message is part of that text; it is not the whole of it. When the
  payload's message or ip cannot be converted to a string, the lookup yields the
  TypeError of the conversion instead.
\<close>

theorem service_error_embeds_payload_message:
  assumes "\<not> unconvertible ip"
    and "network rt (coords_url rt ip) = Replied statusCode body"
    and "JSON_parse rt body = Inr data"
    and "get_prop data ''success'' = Inr (Bool False)"
    and "get_prop data ''message'' = Inr message"
    and "get_prop data ''ip'' = Inr ip'"
  shows "(\<not> unconvertible message \<and> \<not> unconvertible ip' \<longrightarrow>
            yields (fetchCoordsByIP rt ip) =
              [(Err ''Error''
                  (''Success status was false. Server message says: '' @
                   text_of (Number_toString rt) message @
                   '' when fetching for IP '' @ text_of (Number_toString rt) ip'), Null)]) \<and>
         (unconvertible message \<or> unconvertible ip' \<longrightarrow>
            yields (fetchCoordsByIP rt ip) =
              [(Err ''TypeError'' ''Cannot convert object to primitive value'', Null)])"
proof (intro conjI impI)
  assume "\<not> unconvertible message \<and> \<not> unconvertible ip'"
  then show "yields (fetchCoordsByIP rt ip) =
      [(Err ''Error''
          (''Success status was false. Server message says: '' @
           text_of (Number_toString rt) message @
           '' when fetching for IP '' @ text_of (Number_toString rt) ip'), Null)]"
    by (simp add: yields_located [OF assms(1,2,3,4)] field_eq [OF assms(5)] field_eq [OF assms(6)]
          success_message_text)
next
  assume "unconvertible message \<or> unconvertible ip'"
  then have "success_message rt (Bool False) message ip' = Inl cannot_convert"
    by (intro success_message_throws) simp
  then show "yields (fetchCoordsByIP rt ip) =
      [(Err ''TypeError'' ''Cannot convert object to primitive value'', Null)]"
    by (simp add: yields_located [OF assms(1,2,3,4)] field_eq [OF assms(5)] field_eq [OF assms(6)]
          cannot_convert_def)
qed

theorem service_error_embeds_payload_message_witness:
  "yields (fetchCoordsByIP refused (Str ''1.2.3.4'')) =
     [(Err ''Error''
        ''Success status was false. Server message says: Invalid IP address when fetching for IP 1.2.3.4'',
       Null)] \<and>
   yields (fetchCoordsByIP unreadable (Str ''1.2.3.4'')) =
     [(Err ''TypeError'' ''Cannot convert object to primitive value'', Null)]"
proof -
  let ?data = "Obj [(''success'', Bool False), (''message'', Str ''Invalid IP address''),
                    (''ip'', Str ''1.2.3.4'')]"
  let ?odd = "Obj [(''success'', Bool False), (''message'', Obj [(''toString'', Num 1)]),
                   (''ip'', Str ''1.2.3.4'')]"
  have "\<not> unconvertible (Str ''1.2.3.4'')"
    and "network refused (coords_url refused (Str ''1.2.3.4'')) = Replied 200 refusal"
    and "JSON_parse refused refusal = Inr ?data"
    and "get_prop ?data ''success'' = Inr (Bool False)"
    and "get_prop ?data ''message'' = Inr (Str ''Invalid IP address'')"
    and "get_prop ?data ''ip'' = Inr (Str ''1.2.3.4'')"
    by (simp_all add: fixtures coords_url_def)
  from service_error_embeds_payload_message [OF this]
  have "yields (fetchCoordsByIP refused (Str ''1.2.3.4'')) =
     [(Err ''Error''
        ''Success status was false. Server message says: Invalid IP address when fetching for IP 1.2.3.4'',
       Null)]"
    by simp
  moreover
  have "\<not> unconvertible (Str ''1.2.3.4'')"
    and "network unreadable (coords_url unreadable (Str ''1.2.3.4'')) = Replied 200 unprintable_message"
    and "JSON_parse unreadable unprintable_message = Inr ?odd"
    and "get_prop ?odd ''success'' = Inr (Bool False)"
    and "get_prop ?odd ''message'' = Inr (Obj [(''toString'', Num 1)])"
    and "get_prop ?odd ''ip'' = Inr (Str ''1.2.3.4'')"
    by (simp_all add: fixtures coords_url_def)
  from service_error_embeds_payload_message [OF this]
  have "yields (fetchCoordsByIP unreadable (Str ''1.2.3.4'')) =
     [(Err ''TypeError'' ''Cannot convert object to primitive value'', Null)]"
    by simp
  ultimately show ?thesis by simp
qed

text \<open>
  C3 as stated fails: the payload's message is \<^verbatim>\<open>Invalid IP address\<close>, the message of
  the error the lookup yields is a longer text.
\<close>

theorem service_error_message_not_verbatim:
  "network refused (coords_url refused (Str ''1.2.3.4'')) = Replied 200 refusal \<and>
   JSON_parse refused refusal =
     Inr (Obj [(''success'', Bool False), (''message'', Str ''Invalid IP address''),
               (''ip'', Str ''1.2.3.4'')]) \<and>
   yields (fetchCoordsByIP refused (Str ''1.2.3.4'')) =
     [(Err ''Error''
        ''Success status was false. Server message says: Invalid IP address when fetching for IP 1.2.3.4'',
       Null)] \<and>
   ''Success status was false. Server message says: Invalid IP address when fetching for IP 1.2.3.4''
     \<noteq> ''Invalid IP address''"
  by (simp add: fixtures program)

text \<open>
  C4, as amended. For the IP lookup and the overpass lookup, a reply with status 200
  whose body parses but is missing the expected field (\<^verbatim>\<open>ip\<close>, \<^verbatim>\<open>response\<close>) yields
  an error only when the body parses to \<^verbatim>\<open>null\<close>: the TypeError of reading a property of
  \<^verbatim>\<open>null\<close>, with a \<^verbatim>\<open>null\<close> result. When the body parses to any other value, the
  lookup yields a \<^verbatim>\<open>null\<close> error and the result \<^verbatim>\<open>undefined\<close>. (\<^verbatim>\<open>JSON.parse\<close> never
  gives \<^verbatim>\<open>undefined\<close>; the type of the model lets it, and reading a property of it
  throws as for \<^verbatim>\<open>null\<close>.)
\<close>

theorem missing_field_yields_undefined:
  "(network rt ''https://api.ipify.org?format=json'' = Replied 200 body \<and>
    JSON_parse rt body = Inr data \<and> \<not> has_field data ''ip'' \<longrightarrow>
      yields (fetchMyIP rt) =
        [case data of
           Null \<Rightarrow> (Err ''TypeError'' ''Cannot read properties of null (reading 'ip')'', Null)
         | Undefined \<Rightarrow>
             (Err ''TypeError'' ''Cannot read properties of undefined (reading 'ip')'', Null)
         | _ \<Rightarrow> (Null, Undefined)]) \<and>
   (get_prop coords ''latitude'' = Inr lat \<and> get_prop coords ''longitude'' = Inr lon \<and>
    \<not> unconvertible lat \<and> \<not> unconvertible lon \<and>
    network rt (flyover_url rt lat lon) = Replied 200 body' \<and>
    JSON_parse rt body' = Inr data' \<and> \<not> has_field data' ''response'' \<longrightarrow>
      yields (fetchISSFlyOverTimes rt coords) =
        [case data' of
           Null \<Rightarrow> (Err ''TypeError'' ''Cannot read properties of null (reading 'response')'', Null)
         | Undefined \<Rightarrow>
             (Err ''TypeError'' ''Cannot read properties of undefined (reading 'response')'', Null)
         | _ \<Rightarrow> (Null, Undefined)])"
proof (intro conjI impI)
  assume a: "network rt ''https://api.ipify.org?format=json'' = Replied 200 body \<and>
    JSON_parse rt body = Inr data \<and> \<not> has_field data ''ip''"
  with yields_parsed [of rt body data] have "yields (fetchMyIP rt) =
      [case get_prop data ''ip'' of Inl exn \<Rightarrow> (exn, Null) | Inr ip \<Rightarrow> (Null, ip)]"
    by simp
  with a show "yields (fetchMyIP rt) =
        [case data of
           Null \<Rightarrow> (Err ''TypeError'' ''Cannot read properties of null (reading 'ip')'', Null)
         | Undefined \<Rightarrow>
             (Err ''TypeError'' ''Cannot read properties of undefined (reading 'ip')'', Null)
         | _ \<Rightarrow> (Null, Undefined)]"
    by (cases data) (simp_all add: cannot_read_def split: option.splits)
next
  assume a: "get_prop coords ''latitude'' = Inr lat \<and> get_prop coords ''longitude'' = Inr lon \<and>
    \<not> unconvertible lat \<and> \<not> unconvertible lon \<and>
    network rt (flyover_url rt lat lon) = Replied 200 body' \<and>
    JSON_parse rt body' = Inr data' \<and> \<not> has_field data' ''response''"
  with yields_parsed_flyover [of coords lat lon rt body' data']
  have "yields (fetchISSFlyOverTimes rt coords) =
      [case get_prop data' ''response'' of Inl exn \<Rightarrow> (exn, Null) | Inr v \<Rightarrow> (Null, v)]"
    by simp
  with a show "yields (fetchISSFlyOverTimes rt coords) =
        [case data' of
           Null \<Rightarrow> (Err ''TypeError'' ''Cannot read properties of null (reading 'response')'', Null)
         | Undefined \<Rightarrow>
             (Err ''TypeError'' ''Cannot read properties of undefined (reading 'response')'', Null)
         | _ \<Rightarrow> (Null, Undefined)]"
    by (cases data') (simp_all add: cannot_read_def split: option.splits)
qed

theorem missing_field_yields_undefined_witness:
  "yields (fetchMyIP empty_bodies) = [(Null, Undefined)] \<and>
   yields (fetchISSFlyOverTimes empty_bodies position) = [(Null, Undefined)] \<and>
   yields (fetchMyIP null_bodies) =
     [(Err ''TypeError'' ''Cannot read properties of null (reading 'ip')'', Null)] \<and>
   yields (fetchISSFlyOverTimes null_bodies position) =
     [(Err ''TypeError'' ''Cannot read properties of null (reading 'response')'', Null)]"
proof -
  have position: "get_prop position ''latitude'' = Inr (Num (371 / 10))"
    "get_prop position ''longitude'' = Inr (Num (- 1221 / 10))"
    "\<not> unconvertible (Num (371 / 10))" "\<not> unconvertible (Num (- 1221 / 10))"
    by (simp_all add: position_def)
  have empty: "network empty_bodies ''https://api.ipify.org?format=json'' = Replied 200 ''{}''"
    "network empty_bodies (flyover_url empty_bodies (Num (371 / 10)) (Num (- 1221 / 10))) =
       Replied 200 ''{}''"
    "JSON_parse empty_bodies ''{}'' = Inr (Obj [])"
    "\<not> has_field (Obj []) ''ip''" "\<not> has_field (Obj []) ''response''"
    by (simp_all add: fixtures flyover_url_def)
  have null: "network null_bodies ''https://api.ipify.org?format=json'' = Replied 200 ''null''"
    "network null_bodies (flyover_url null_bodies (Num (371 / 10)) (Num (- 1221 / 10))) =
       Replied 200 ''null''"
    "JSON_parse null_bodies ''null'' = Inr Null"
    "\<not> has_field Null ''ip''" "\<not> has_field Null ''response''"
    by (simp_all add: fixtures flyover_url_def)
  from position empty
    missing_field_yields_undefined [of empty_bodies "''{}''" "Obj []" position
      "Num (371 / 10)" "Num (- 1221 / 10)" "''{}''" "Obj []"]
  have "yields (fetchMyIP empty_bodies) = [(Null, Undefined)]"
    and "yields (fetchISSFlyOverTimes empty_bodies position) = [(Null, Undefined)]"
    by simp_all
  moreover
  from position null
    missing_field_yields_undefined [of null_bodies "''null''" Null position
      "Num (371 / 10)" "Num (- 1221 / 10)" "''null''" Null]
  have "yields (fetchMyIP null_bodies) =
      [(Err ''TypeError'' ''Cannot read properties of null (reading 'ip')'', Null)]"
    and "yields (fetchISSFlyOverTimes null_bodies position) =
      [(Err ''TypeError'' ''Cannot read properties of null (reading 'response')'', Null)]"
    by simp_all
  ultimately show ?thesis by simp
qed

text \<open>
  C4 as stated fails: a reply with status 200 and the body \<^verbatim>\<open>{}\<close>, which parses and has
  neither an \<^verbatim>\<open>ip\<close> nor a \<^verbatim>\<open>response\<close>, makes each of the two lookups yield no error
  and the result \<^verbatim>\<open>undefined\<close>.
\<close>

theorem missing_field_no_parse_error:
  "network empty_bodies ''https://api.ipify.org?format=json'' = Replied 200 ''{}'' \<and>
   network empty_bodies (flyover_url empty_bodies (Num (371 / 10)) (Num (- 1221 / 10))) =
     Replied 200 ''{}'' \<and>
   JSON_parse empty_bodies ''{}'' = Inr (Obj []) \<and>
   yields (fetchMyIP empty_bodies) = [(Null, Undefined)] \<and>
   yields (fetchISSFlyOverTimes empty_bodies position) = [(Null, Undefined)]"
  by (simp add: fixtures program)

text \<open>
  C5. When the reply to the IP lookup or to the overpass lookup has a status other than
  200, the lookup calls back once, with a null result and an error whose message is
  \<^verbatim>\<open>Status Code <code> when fetching IP. Response: <body>\<close>. The message carries the
  status code and the raw body: no two different pairs of a code and a body give the same
  message. (The overpass lookup gets a reply when it sends its request, that is when the
  latitude and the longitude can be converted for the URL.)
\<close>

theorem status_error_carries_code_and_body:
  "(network rt ''https://api.ipify.org?format=json'' = Replied statusCode body \<and> statusCode \<noteq> 200 \<longrightarrow>
      yields (fetchMyIP rt) = [(Err ''Error'' (status_message statusCode body), Null)]) \<and>
   (get_prop coords ''latitude'' = Inr lat \<and> get_prop coords ''longitude'' = Inr lon \<and>
    \<not> unconvertible lat \<and> \<not> unconvertible lon \<and>
    network rt (flyover_url rt lat lon) = Replied statusCode body \<and> statusCode \<noteq> 200 \<longrightarrow>
      yields (fetchISSFlyOverTimes rt coords) = [(Err ''Error'' (status_message statusCode body), Null)]) \<and>
   (status_message statusCode body = status_message statusCode' body' \<longrightarrow>
      statusCode' = statusCode \<and> body' = body)"
  using status_message_inj [of statusCode body statusCode' body']
  by (auto simp add: yields_fetchMyIP yields_fetchISSFlyOverTimes checked_def)

theorem status_error_carries_code_and_body_witness:
  "yields (fetchMyIP boom) =
     [(Err ''Error'' ''Status Code 500 when fetching IP. Response: boom'', Null)] \<and>
   yields (fetchISSFlyOverTimes boom position) =
     [(Err ''Error'' ''Status Code 500 when fetching IP. Response: boom'', Null)]"
  using status_error_carries_code_and_body
    [of boom 500 "''boom''" position "Num (371 / 10)" "Num (- 1221 / 10)" 500 "''boom''"]
  by (simp add: boom_def position_def mock_def ipify_def flyover_def digits_def flyover_url_def status_message_def
        string_of_nat.simps digit_char_def)

text \<open>
  C6. The geolocation lookup does not look at the status code: with the same body, a
  reply with any status code makes the lookup do the same thing (the same call of the
  callback, the same world) as a reply with any other.
\<close>

theorem geolocation_ignores_status_code:
  "fetchCoordsByIP (rt\<lparr>network := (network rt)(coords_url rt ip := Replied statusCode body)\<rparr>) ip
     callback w =
   fetchCoordsByIP (rt\<lparr>network := (network rt)(coords_url rt ip := Replied statusCode' body)\<rparr>) ip
     callback w"
proof (cases "unconvertible ip")
  case True
  then show ?thesis by (simp add: fetchCoordsByIP_throws)
next
  case False
  then show ?thesis
    by (simp add: fetchCoordsByIP_deliver request_get_def
          located_status [of rt statusCode body statusCode'])
qed

text \<open>
  C7, as amended. In every run the completion callback is called. Its first call has
  either a truthy error and the result \<^verbatim>\<open>null\<close>, or the error \<^verbatim>\<open>null\<close> and, as result,
  the \<^verbatim>\<open>response\<close> property of the parsed body of the overpass reply (whatever that value
  is): the reply, with status 200, to the third request of the run, whose URL is made of
  the coordinates that the geolocation lookup yields. When that call returns, it is the
  only call.
\<close>

theorem callback_called_once_when_it_returns:
  "\<exists>e r rest. callbacks_of (trace (run rt body)) = (e, r) # rest \<and>
     ((truthy e \<and> r = Null) \<or>
      (e = Null \<and>
       (\<exists>ip lat lon answer data.
          yields (fetchMyIP rt) = [(Null, ip)] \<and>
          yields (fetchCoordsByIP rt ip) = [(Null, Obj [(''latitude'', lat), (''longitude'', lon)])] \<and>
          requests_of (trace (run rt body)) =
            [''https://api.ipify.org?format=json'', coords_url rt ip, flyover_url rt lat lon] \<and>
          network rt (flyover_url rt lat lon) = Replied 200 answer \<and>
          JSON_parse rt answer = Inr data \<and>
          get_prop data ''response'' = Inr r))) \<and>
     (body e r = Normal \<longrightarrow> rest = [])"
proof (cases rt body rule: run_cases)
  case (found ip lat lon flyTimes rest)
  from found(1,2,3,6)
  have "checked rt (network rt (flyover_url rt lat lon)) ''response'' = Guarded Null flyTimes"
    by (auto simp add: yields_fetchISSFlyOverTimes dest: checked_found)
  from checked_Guarded [OF this] obtain answer data where
    "network rt (flyover_url rt lat lon) = Replied 200 answer" "JSON_parse rt answer = Inr data"
    "get_prop data ''response'' = Inr flyTimes"
    by blast
  with found(4,5) found(7) [of start] found(8,9) show ?thesis
    by (intro exI [of _ Null] exI [of _ flyTimes] exI [of _ "callbacks_of rest"])
       (auto simp add: run_def start_def)
qed (auto simp add: run_def start_def)

theorem callback_called_once_when_it_returns_witness:
  "length (callbacks_of (trace (run all_succeed returns))) = 1 \<and>
   length (callbacks_of (trace (run offline returns))) = 1"
  using callback_called_once_when_it_returns [of all_succeed returns]
    callback_called_once_when_it_returns [of offline returns]
  by (auto simp add: returns_def)

text \<open>
  C7 as stated fails. The overpass service replies 200 with the body \<^verbatim>\<open>{}\<close>. A callback
  that returns is called once, with the error \<^verbatim>\<open>null\<close> and the result \<^verbatim>\<open>undefined\<close>:
  neither an error nor an overpass list. The callback of index.js throws on that call
  (\<^verbatim>\<open>undefined\<close> is not iterable) inside the \<^verbatim>\<open>try\<close> block of the overpass lookup, whose
  \<^verbatim>\<open>catch\<close> clause calls it a second time, with the TypeError.
\<close>

theorem callback_called_twice:
  "callbacks_of (trace (run no_response returns)) = [(Null, Undefined)] \<and>
   \<not> called_once_as_specified (run no_response returns) \<and>
   callbacks_of (trace (run no_response index_callback)) =
     [(Null, Undefined), (Err ''TypeError'' ''passTimes is not iterable'', Null)] \<and>
   \<not> called_once_as_specified (run no_response index_callback)"
  by (simp add: fixtures program called_once_as_specified_def error_or_overpass_list_def)

text \<open>
  C8. The orchestrator keeps no state: started in any world, a run adds to the trace
  exactly the events of a run started afresh. So a second run, after a first one, with
  the same runtime and the same callback, sends the same requests and makes the same
  calls of the callback as the first.
\<close>

theorem orchestrator_keeps_no_state:
  "trace (snd (nextISSTimesForMyLocation rt (completion_callback body) w)) =
     trace w @ trace (run rt body) \<and>
   trace (snd (nextISSTimesForMyLocation rt (completion_callback body) (run rt body))) =
     trace (run rt body) @ trace (run rt body)"
proof -
  have "trace (snd (nextISSTimesForMyLocation rt (completion_callback body) w)) =
          trace w @ trace (run rt body)" for w
    by (cases rt body rule: run_cases) (simp_all add: run_def start_def)
  then show ?thesis by simp
qed




text \<open>
  C10. When the geolocation body parses and the payload's \<^verbatim>\<open>success\<close> is truthy, the
  lookup yields the record of the payload's \<^verbatim>\<open>latitude\<close> and \<^verbatim>\<open>longitude\<close>, whatever
  they are (\<^verbatim>\<open>undefined\<close> when absent), with a \<^verbatim>\<open>null\<close> error. In a run, after the IP
  lookup succeeded, the orchestrator hands that record to the overpass lookup: it sends
  the overpass request made from the two values when they can be converted for the URL,
  and calls back with the TypeError of the conversion when one of them cannot.
\<close>

theorem coordinates_passed_unvalidated:
  assumes "\<not> unconvertible ip"
    and "network rt (coords_url rt ip) = Replied statusCode body"
    and "JSON_parse rt body = Inr data"
    and "get_prop data ''success'' = Inr success" and "truthy success"
    and "get_prop data ''latitude'' = Inr latitude"
    and "get_prop data ''longitude'' = Inr longitude"
  shows "yields (fetchCoordsByIP rt ip) =
           [(Null, Obj [(''latitude'', latitude), (''longitude'', longitude)])] \<and>
         (yields (fetchMyIP rt) = [(e, ip)] \<and> \<not> truthy e \<and>
          \<not> unconvertible latitude \<and> \<not> unconvertible longitude \<longrightarrow>
            requests_of (trace (run rt callback_body)) =
              [''https://api.ipify.org?format=json'', coords_url rt ip,
               flyover_url rt latitude longitude]) \<and>
         (yields (fetchMyIP rt) = [(e, ip)] \<and> \<not> truthy e \<and>
          (unconvertible latitude \<or> unconvertible longitude) \<longrightarrow>
            trace (run rt callback_body) =
              [Request ''https://api.ipify.org?format=json'', Request (coords_url rt ip),
               Callback (Err ''TypeError'' ''Cannot convert object to primitive value'') Null])"
proof -
  have coords: "yields (fetchCoordsByIP rt ip) =
      [(Null, Obj [(''latitude'', latitude), (''longitude'', longitude)])]"
    by (simp add: yields_located [OF assms(1,2,3,4)] assms(5) field_eq [OF assms(6)]
          field_eq [OF assms(7)])
  have sent: "requests_of (trace (run rt callback_body)) =
      [''https://api.ipify.org?format=json'', coords_url rt ip, flyover_url rt latitude longitude]"
    if "yields (fetchMyIP rt) = [(e, ip)]" and "\<not> truthy e"
      and "\<not> unconvertible latitude" and "\<not> unconvertible longitude"
    using that coords assms(1)
    by (cases rt callback_body rule: run_cases)
       (auto simp add: run_def start_def yields_fetchCoordsByIP_throws)
  have thrown: "trace (run rt callback_body) =
      [Request ''https://api.ipify.org?format=json'', Request (coords_url rt ip),
       Callback (Err ''TypeError'' ''Cannot convert object to primitive value'') Null]"
    if "yields (fetchMyIP rt) = [(e, ip)]" and "\<not> truthy e"
      and "unconvertible latitude \<or> unconvertible longitude"
    using that coords assms(1)
    by (cases rt callback_body rule: run_cases)
       (auto simp add: run_def start_def cannot_convert_def)
  from coords sent thrown show ?thesis by blast
qed

theorem coordinates_passed_unvalidated_witness:
  "yields (fetchCoordsByIP unplaced (Str ''1.2.3.4'')) =
     [(Null, Obj [(''latitude'', Undefined), (''longitude'', Num (- 1221 / 10))])] \<and>
   requests_of (trace (run unplaced returns)) =
     [ipify, ipwho, ''https://iss-flyover.herokuapp.com/json/?lat=undefined&lon=-122.1''] \<and>
   trace (run misplaced returns) =
     [Request ipify, Request ipwho,
      Callback (Err ''TypeError'' ''Cannot convert object to primitive value'') Null]"
proof -
  let ?data = "Obj [(''success'', Bool True), (''longitude'', Num (- 1221 / 10))]"
  let ?odd = "Obj [(''success'', Bool True), (''latitude'', Obj [(''toString'', Num 1)]),
                   (''longitude'', Num (- 1221 / 10))]"
  have "\<not> unconvertible (Str ''1.2.3.4'')"
    and "network unplaced (coords_url unplaced (Str ''1.2.3.4'')) = Replied 200 no_latitude"
    and "JSON_parse unplaced no_latitude = Inr ?data"
    and "get_prop ?data ''success'' = Inr (Bool True)" and "truthy (Bool True)"
    and "get_prop ?data ''latitude'' = Inr Undefined"
    and "get_prop ?data ''longitude'' = Inr (Num (- 1221 / 10))"
    by (simp_all add: fixtures coords_url_def)
  from coordinates_passed_unvalidated [OF this, of Null returns]
  have "yields (fetchCoordsByIP unplaced (Str ''1.2.3.4'')) =
     [(Null, Obj [(''latitude'', Undefined), (''longitude'', Num (- 1221 / 10))])]"
    and "yields (fetchMyIP unplaced) = [(Null, Str ''1.2.3.4'')] \<Longrightarrow>
      requests_of (trace (run unplaced returns)) =
        [''https://api.ipify.org?format=json'', coords_url unplaced (Str ''1.2.3.4''),
         flyover_url unplaced Undefined (Num (- 1221 / 10))]"
    by simp_all
  moreover have "yields (fetchMyIP unplaced) = [(Null, Str ''1.2.3.4'')]"
    and "coords_url unplaced (Str ''1.2.3.4'') = ipwho"
    and "flyover_url unplaced Undefined (Num (- 1221 / 10)) =
           ''https://iss-flyover.herokuapp.com/json/?lat=undefined&lon=-122.1''"
    by (simp_all add: fixtures program)
  moreover
  have "\<not> unconvertible (Str ''1.2.3.4'')"
    and "network misplaced (coords_url misplaced (Str ''1.2.3.4'')) = Replied 200 unprintable_latitude"
    and "JSON_parse misplaced unprintable_latitude = Inr ?odd"
    and "get_prop ?odd ''success'' = Inr (Bool True)" and "truthy (Bool True)"
    and "get_prop ?odd ''latitude'' = Inr (Obj [(''toString'', Num 1)])"
    and "get_prop ?odd ''longitude'' = Inr (Num (- 1221 / 10))"
    by (simp_all add: fixtures coords_url_def)
  from coordinates_passed_unvalidated [OF this, of Null returns]
  have "yields (fetchMyIP misplaced) = [(Null, Str ''1.2.3.4'')] \<Longrightarrow>
      trace (run misplaced returns) =
        [Request ''https://api.ipify.org?format=json'', Request (coords_url misplaced (Str ''1.2.3.4'')),
         Callback (Err ''TypeError'' ''Cannot convert object to primitive value'') Null]"
    by simp
  moreover have "yields (fetchMyIP misplaced) = [(Null, Str ''1.2.3.4'')]"
    and "coords_url misplaced (Str ''1.2.3.4'') = ipwho"
    by (simp_all add: fixtures program)
  ultimately show ?thesis by (simp add: ipify_def)
qed

end
